theory Spec2Isabelle
  imports Main "HOL-Library.Word"
begin

unbundle bit_operations_syntax

section \<open>Data model\<close>

text \<open>
  The driver works on bytes (\<open>uint8_t\<close>) and on one 32-bit pin mask (\<open>uint32_t\<close>).
  C evaluates byte expressions in \<open>int\<close> and converts the result back to \<open>uint8_t\<close> when
  it is stored or passed on; for the operators the driver uses on bytes
  (\<open>+\<close>, \<open>-\<close>, \<open>|\<close>, \<open>&\<close>, \<open>~\<close>, \<open><<\<close>, and \<open>>>\<close> and comparisons of
  non-negative values) that is the arithmetic of \<open>8 word\<close>.
\<close>

type_synonym u8 = "8 word"
type_synonym u32 = "32 word"

subsection \<open>Constants of LCD_HD44780U.h\<close>

definition LCD_CLEARDISPLAY :: u8 where [simp]: "LCD_CLEARDISPLAY = 0x01"
definition LCD_RETURNHOME :: u8 where [simp]: "LCD_RETURNHOME = 0x02"
definition LCD_ENTRYMODESET :: u8 where [simp]: "LCD_ENTRYMODESET = 0x04"
definition LCD_DISPLAYCONTROL :: u8 where [simp]: "LCD_DISPLAYCONTROL = 0x08"
definition LCD_CURSORSHIFT :: u8 where [simp]: "LCD_CURSORSHIFT = 0x10"
definition LCD_FUNCTIONSET :: u8 where [simp]: "LCD_FUNCTIONSET = 0x20"
definition LCD_SETCGRAMADDR :: u8 where [simp]: "LCD_SETCGRAMADDR = 0x40"
definition LCD_SETDDRAMADDR :: u8 where [simp]: "LCD_SETDDRAMADDR = 0x80"

definition LCD_ENTRYLEFT :: u8 where [simp]: "LCD_ENTRYLEFT = 0x02"
definition LCD_ENTRYSHIFTINCREMENT :: u8 where [simp]: "LCD_ENTRYSHIFTINCREMENT = 0x01"
definition LCD_ENTRYSHIFTDECREMENT :: u8 where [simp]: "LCD_ENTRYSHIFTDECREMENT = 0x00"

definition LCD_DISPLAYON :: u8 where [simp]: "LCD_DISPLAYON = 0x04"
definition LCD_CURSORON :: u8 where [simp]: "LCD_CURSORON = 0x02"
definition LCD_CURSOROFF :: u8 where [simp]: "LCD_CURSOROFF = 0x00"
definition LCD_BLINKON :: u8 where [simp]: "LCD_BLINKON = 0x01"
definition LCD_BLINKOFF :: u8 where [simp]: "LCD_BLINKOFF = 0x00"

definition LCD_DISPLAYMOVE :: u8 where [simp]: "LCD_DISPLAYMOVE = 0x08"
definition LCD_MOVERIGHT :: u8 where [simp]: "LCD_MOVERIGHT = 0x04"
definition LCD_MOVELEFT :: u8 where [simp]: "LCD_MOVELEFT = 0x00"

definition LCD_8BITMODE :: u8 where [simp]: "LCD_8BITMODE = 0x10"
definition LCD_4BITMODE :: u8 where [simp]: "LCD_4BITMODE = 0x00"
definition LCD_2LINE :: u8 where [simp]: "LCD_2LINE = 0x08"
definition LCD_1LINE :: u8 where [simp]: "LCD_1LINE = 0x00"
definition LCD_5x10DOTS :: u8 where [simp]: "LCD_5x10DOTS = 0x04"
definition LCD_5x8DOTS :: u8 where [simp]: "LCD_5x8DOTS = 0x00"

subsection \<open>The handle\<close>

text \<open>
  \<open>struct LCD_HD44780U\<close>, field by field (the C names without their leading underscore).
  The two arrays \<open>_data_pins[8]\<close> and \<open>_row_offsets[4]\<close> are lists; \<open>handle_wf\<close> says
  that they have the sizes the struct declares. A handle pointer is an
  \<open>LCD_Handle option\<close>, \<open>None\<close> being \<open>NULL\<close>.
\<close>

record LCD_Handle =
  rs_pin :: u8
  rw_pin :: u8
  enable_pin :: u8
  data_pins :: "u8 list"
  data_pins_mask :: u32
  displayfunction :: u8
  displaycontrol :: u8
  displaymode :: u8
  numlines :: u8
  row_offsets :: "u8 list"

definition handle_wf :: "LCD_Handle \<Rightarrow> bool" where
  "handle_wf h \<longleftrightarrow> length (data_pins h) = 8 \<and> length (row_offsets h) = 4"

subsection \<open>The world outside the driver\<close>

text \<open>
  Every call the driver makes into the Pico SDK (GPIO, sleeping) and into \<open>free\<close> is
  recorded, in order, as an event. \<open>GpioSetDir pin True\<close> is \<open>gpio_set_dir(pin, GPIO_OUT)\<close>;
  \<open>GpioSetFunction\<close> and \<open>GpioSetFunctionMasked\<close> are always called with
  \<open>GPIO_FUNC_NULL\<close>; \<open>GpioGet pin v\<close> records a \<open>gpio_get(pin)\<close> that returned \<open>v\<close>.
\<close>

datatype event =
    GpioInitMask u32
  | GpioInit u8
  | GpioSetDir u8 bool
  | GpioSetDirOutMasked u32
  | GpioSetDirInMasked u32
  | GpioPutMasked u32 u32
  | GpioPut u8 bool
  | GpioGet u8 bool
  | GpioSetFunctionMasked u32
  | GpioSetFunction u8
  | SleepUs nat
  | SleepMs nat
  | Free

text \<open>
  The world holds the events so far and what the hardware will answer: \<open>pins_in w k\<close> is
  the level the \<open>k\<close>-th call of \<open>gpio_get\<close> samples (\<open>nreads\<close> counts the calls made), and
  \<open>malloc_result\<close> is what \<open>malloc\<close> returns: \<open>None\<close> for \<open>NULL\<close>, or a block of
  indeterminate contents.
\<close>

record world =
  events :: "event list"
  pins_in :: "nat \<Rightarrow> bool"
  nreads :: nat
  malloc_result :: "LCD_Handle option"

definition emit :: "event list \<Rightarrow> world \<Rightarrow> world" where
  "emit es w = w\<lparr>events := events w @ es\<rparr>"

definition gpio_put :: "u8 \<Rightarrow> bool \<Rightarrow> world \<Rightarrow> world" where
  "gpio_put pin v = emit [GpioPut pin v]"

definition gpio_set_dir_out_masked :: "u32 \<Rightarrow> world \<Rightarrow> world" where
  "gpio_set_dir_out_masked m = emit [GpioSetDirOutMasked m]"

definition gpio_set_dir_in_masked :: "u32 \<Rightarrow> world \<Rightarrow> world" where
  "gpio_set_dir_in_masked m = emit [GpioSetDirInMasked m]"

definition sleep_us :: "nat \<Rightarrow> world \<Rightarrow> world" where
  "sleep_us n = emit [SleepUs n]"

definition sleep_ms :: "nat \<Rightarrow> world \<Rightarrow> world" where
  "sleep_ms n = emit [SleepMs n]"

definition gpio_init_mask :: "u32 \<Rightarrow> world \<Rightarrow> world" where
  "gpio_init_mask m = emit [GpioInitMask m]"

definition gpio_init :: "u8 \<Rightarrow> world \<Rightarrow> world" where
  "gpio_init pin = emit [GpioInit pin]"

definition gpio_set_dir :: "u8 \<Rightarrow> bool \<Rightarrow> world \<Rightarrow> world" where
  "gpio_set_dir pin out = emit [GpioSetDir pin out]"

definition gpio_put_masked :: "u32 \<Rightarrow> u32 \<Rightarrow> world \<Rightarrow> world" where
  "gpio_put_masked m v = emit [GpioPutMasked m v]"

definition gpio_set_function_masked :: "u32 \<Rightarrow> world \<Rightarrow> world" where
  "gpio_set_function_masked m = emit [GpioSetFunctionMasked m]"

definition gpio_set_function :: "u8 \<Rightarrow> world \<Rightarrow> world" where
  "gpio_set_function pin = emit [GpioSetFunction pin]"

definition free :: "world \<Rightarrow> world" where
  "free = emit [Free]"

definition gpio_get :: "u8 \<Rightarrow> world \<Rightarrow> bool \<times> world" where
  "gpio_get pin w =
     (let v = pins_in w (nreads w)
      in (v, (emit [GpioGet pin v] w)\<lparr>nreads := Suc (nreads w)\<rparr>))"

section \<open>Bit-transfer engine\<close>

text \<open>
  \<open>_lcd_write_8_bits\<close> and \<open>_lcd_write_4_bits\<close>. The loop
  \<open>for (i = 0; i < n; i++) gpio_put(_data_pins[i], (data >> i) & 0x01)\<close> is a fold over
  \<open>[0..<n]\<close>; \<open>gpio_put\<close> takes a \<open>bool\<close>, so the value driven is whether
  \<open>(data >> i) & 0x01\<close> is non-zero.
\<close>

definition put_data_pin :: "LCD_Handle \<Rightarrow> u8 \<Rightarrow> nat \<Rightarrow> world \<Rightarrow> world" where
  "put_data_pin h data i = gpio_put (data_pins h ! i) (drop_bit i data AND 0x01 \<noteq> 0)"

definition lcd_write_8_bits :: "LCD_Handle \<Rightarrow> u8 \<Rightarrow> world \<Rightarrow> world" where
  "lcd_write_8_bits h data w =
     (let w1 = (if rw_pin h \<noteq> 255
                then gpio_set_dir_out_masked (data_pins_mask h)
                       (sleep_us 1 (gpio_put (rw_pin h) False w))
                else w);
          w2 = sleep_us 1 (gpio_put (enable_pin h) True w1);
          w3 = fold (put_data_pin h data) [0..<8] w2;
          w4 = gpio_put (enable_pin h) False (sleep_us 1 w3)
      in if rw_pin h \<noteq> 255 then sleep_us 1 w4 else sleep_us 100 w4)"

definition lcd_write_4_bits :: "LCD_Handle \<Rightarrow> u8 \<Rightarrow> world \<Rightarrow> world" where
  "lcd_write_4_bits h data w =
     (let w1 = (if rw_pin h \<noteq> 255
                then gpio_set_dir_out_masked (data_pins_mask h)
                       (sleep_us 1 (gpio_put (rw_pin h) False w))
                else w);
          w2 = sleep_us 1 (gpio_put (enable_pin h) True w1);
          w3 = fold (put_data_pin h data) [0..<4] w2;
          w4 = gpio_put (enable_pin h) False (sleep_us 1 w3)
      in if rw_pin h \<noteq> 255 then sleep_us 1 w4 else sleep_us 100 w4)"

text \<open>
  \<open>_lcd_read_8_bits\<close> and \<open>_lcd_read_4_bits\<close>. One round of the loop
  \<open>data |= gpio_get(_data_pins[i]) << i\<close> is \<open>get_data_pin\<close>.
\<close>

definition get_data_pin :: "LCD_Handle \<Rightarrow> nat \<Rightarrow> u8 \<times> world \<Rightarrow> u8 \<times> world" where
  "get_data_pin h i s =
     (let (v, w') = gpio_get (data_pins h ! i) (snd s)
      in (fst s OR push_bit i (of_bool v), w'))"

definition lcd_read_8_bits :: "LCD_Handle \<Rightarrow> world \<Rightarrow> u8 \<times> world" where
  "lcd_read_8_bits h w =
     (if rw_pin h = 255 then (255, w)
      else
        let w1 = gpio_set_dir_in_masked (data_pins_mask h) w;
            w2 = sleep_us 1 (gpio_put (rw_pin h) True w1);
            w3 = sleep_us 1 (gpio_put (enable_pin h) True w2);
            (data, w4) = fold (get_data_pin h) [0..<8] (0, w3)
        in (data, sleep_us 1 (gpio_put (enable_pin h) False w4)))"

definition lcd_read_4_bits :: "LCD_Handle \<Rightarrow> world \<Rightarrow> u8 \<times> world" where
  "lcd_read_4_bits h w =
     (if rw_pin h = 255 then (15, w)
      else
        let w1 = gpio_set_dir_in_masked (data_pins_mask h) w;
            w2 = sleep_us 1 (gpio_put (rw_pin h) True w1);
            w3 = sleep_us 1 (gpio_put (enable_pin h) True w2);
            (data, w4) = fold (get_data_pin h) [0..<4] (0, w3)
        in (data, sleep_us 1 (gpio_put (enable_pin h) False w4)))"

section \<open>Command/data channel\<close>

definition lcd_read_command :: "LCD_Handle \<Rightarrow> world \<Rightarrow> u8 \<times> world" where
  "lcd_read_command h w =
     (let w0 = gpio_put (rs_pin h) False w
      in if displayfunction h AND LCD_8BITMODE \<noteq> 0 then lcd_read_8_bits h w0
         else
           let (hi, w1) = lcd_read_4_bits h w0;
               (lo, w2) = lcd_read_4_bits h w1
           in (push_bit 4 hi OR lo, w2))"

definition lcd_read_data :: "LCD_Handle \<Rightarrow> world \<Rightarrow> u8 \<times> world" where
  "lcd_read_data h w =
     (let w0 = gpio_put (rs_pin h) True w
      in if displayfunction h AND LCD_8BITMODE \<noteq> 0 then lcd_read_8_bits h w0
         else
           let (hi, w1) = lcd_read_4_bits h w0;
               (lo, w2) = lcd_read_4_bits h w1
           in (push_bit 4 hi OR lo, w2))"

definition lcd_busy :: "LCD_Handle \<Rightarrow> world \<Rightarrow> bool \<times> world" where
  "lcd_busy h w = (let (c, w') = lcd_read_command h w in (c AND 0x80 \<noteq> 0, w'))"

text \<open>
  The loop \<open>while (_lcd_busy(handle)) { sleep_us(3); }\<close> of \<open>_lcd_send_command\<close> and
  \<open>_lcd_send_data\<close>. It has no bound: on a controller that never clears its busy flag it
  does not return, which is the value \<open>None\<close>.
\<close>

partial_function (option) wait_while_busy :: "LCD_Handle \<Rightarrow> world \<Rightarrow> world option" where
  "wait_while_busy h w =
     (let r = lcd_busy h w
      in if fst r then wait_while_busy h (sleep_us 3 (snd r)) else Some (snd r))"

definition lcd_send_command :: "LCD_Handle \<Rightarrow> u8 \<Rightarrow> world \<Rightarrow> world option" where
  "lcd_send_command h command w =
     Option.bind (if rw_pin h \<noteq> 255 then wait_while_busy h w else Some w)
       (\<lambda>w1. let w2 = gpio_put (rs_pin h) False w1
             in Some (if displayfunction h AND LCD_8BITMODE \<noteq> 0
                      then lcd_write_8_bits h command w2
                      else lcd_write_4_bits h command
                             (lcd_write_4_bits h (drop_bit 4 command) w2)))"

definition lcd_send_data :: "LCD_Handle \<Rightarrow> u8 \<Rightarrow> world \<Rightarrow> world option" where
  "lcd_send_data h data w =
     Option.bind (if rw_pin h \<noteq> 255 then wait_while_busy h w else Some w)
       (\<lambda>w1. let w2 = gpio_put (rs_pin h) True w1
             in Some (if displayfunction h AND LCD_8BITMODE \<noteq> 0
                      then lcd_write_8_bits h data w2
                      else lcd_write_4_bits h data
                             (lcd_write_4_bits h (drop_bit 4 data) w2)))"

section \<open>Faults\<close>

text \<open>
  An array read outside the array is undefined behaviour in C; the model makes it the
  fault \<open>OutOfBounds\<close>. A function that can fault returns a \<open>(fault + 'a) option\<close>:
  \<open>None\<close> when it does not return, \<open>Some (Inl OutOfBounds)\<close> when it faults and
  \<open>Some (Inr x)\<close> when it returns \<open>x\<close>.
\<close>

datatype fault = OutOfBounds

definition array_get :: "'a list \<Rightarrow> nat \<Rightarrow> fault + 'a" where
  "array_get xs i = (if i < length xs then Inr (xs ! i) else Inl OutOfBounds)"

definition lift :: "'a option \<Rightarrow> (fault + 'a) option" where
  "lift m = map_option Inr m"

definition obind :: "(fault + 'a) option \<Rightarrow> ('a \<Rightarrow> (fault + 'b) option) \<Rightarrow> (fault + 'b) option" where
  "obind m f = (case m of None \<Rightarrow> None | Some (Inl e) \<Rightarrow> Some (Inl e) | Some (Inr x) \<Rightarrow> f x)"

section \<open>Public functions\<close>

text \<open>
  A public function takes the handle pointer and the world, and returns the handle (the
  struct as the call leaves it, \<open>None\<close> for \<open>NULL\<close>) with the new world.
\<close>

definition lcd_clear :: "LCD_Handle option \<Rightarrow> world \<Rightarrow> (LCD_Handle option \<times> world) option" where
  "lcd_clear handle w =
     (case handle of None \<Rightarrow> Some (None, w)
      | Some h \<Rightarrow>
          map_option (\<lambda>w'. (Some h, sleep_ms 5 w')) (lcd_send_command h LCD_CLEARDISPLAY w))"

definition lcd_home :: "LCD_Handle option \<Rightarrow> world \<Rightarrow> (LCD_Handle option \<times> world) option" where
  "lcd_home handle w =
     (case handle of None \<Rightarrow> Some (None, w)
      | Some h \<Rightarrow>
          map_option (\<lambda>w'. (Some h, sleep_ms 5 w')) (lcd_send_command h LCD_RETURNHOME w))"

definition lcd_display_off :: "LCD_Handle option \<Rightarrow> world \<Rightarrow> (LCD_Handle option \<times> world) option" where
  "lcd_display_off handle w =
     (case handle of None \<Rightarrow> Some (None, w)
      | Some h \<Rightarrow>
          let h' = h\<lparr>displaycontrol := displaycontrol h AND NOT LCD_DISPLAYON\<rparr>
          in map_option (Pair (Some h'))
               (lcd_send_command h' (LCD_DISPLAYCONTROL OR displaycontrol h') w))"

definition lcd_display_on :: "LCD_Handle option \<Rightarrow> world \<Rightarrow> (LCD_Handle option \<times> world) option" where
  "lcd_display_on handle w =
     (case handle of None \<Rightarrow> Some (None, w)
      | Some h \<Rightarrow>
          let h' = h\<lparr>displaycontrol := displaycontrol h OR LCD_DISPLAYON\<rparr>
          in map_option (Pair (Some h'))
               (lcd_send_command h' (LCD_DISPLAYCONTROL OR displaycontrol h') w))"

definition lcd_blink_off :: "LCD_Handle option \<Rightarrow> world \<Rightarrow> (LCD_Handle option \<times> world) option" where
  "lcd_blink_off handle w =
     (case handle of None \<Rightarrow> Some (None, w)
      | Some h \<Rightarrow>
          let h' = h\<lparr>displaycontrol := displaycontrol h AND NOT LCD_BLINKON\<rparr>
          in map_option (Pair (Some h'))
               (lcd_send_command h' (LCD_DISPLAYCONTROL OR displaycontrol h') w))"

definition lcd_blink_on :: "LCD_Handle option \<Rightarrow> world \<Rightarrow> (LCD_Handle option \<times> world) option" where
  "lcd_blink_on handle w =
     (case handle of None \<Rightarrow> Some (None, w)
      | Some h \<Rightarrow>
          let h' = h\<lparr>displaycontrol := displaycontrol h OR LCD_BLINKON\<rparr>
          in map_option (Pair (Some h'))
               (lcd_send_command h' (LCD_DISPLAYCONTROL OR displaycontrol h') w))"

definition lcd_cursor_off :: "LCD_Handle option \<Rightarrow> world \<Rightarrow> (LCD_Handle option \<times> world) option" where
  "lcd_cursor_off handle w =
     (case handle of None \<Rightarrow> Some (None, w)
      | Some h \<Rightarrow>
          let h' = h\<lparr>displaycontrol := displaycontrol h AND NOT LCD_CURSORON\<rparr>
          in map_option (Pair (Some h'))
               (lcd_send_command h' (LCD_DISPLAYCONTROL OR displaycontrol h') w))"

definition lcd_cursor_on :: "LCD_Handle option \<Rightarrow> world \<Rightarrow> (LCD_Handle option \<times> world) option" where
  "lcd_cursor_on handle w =
     (case handle of None \<Rightarrow> Some (None, w)
      | Some h \<Rightarrow>
          let h' = h\<lparr>displaycontrol := displaycontrol h OR LCD_CURSORON\<rparr>
          in map_option (Pair (Some h'))
               (lcd_send_command h' (LCD_DISPLAYCONTROL OR displaycontrol h') w))"

definition lcd_scroll_display_left :: "LCD_Handle option \<Rightarrow> world \<Rightarrow> (LCD_Handle option \<times> world) option" where
  "lcd_scroll_display_left handle w =
     (case handle of None \<Rightarrow> Some (None, w)
      | Some h \<Rightarrow>
          map_option (Pair (Some h))
            (lcd_send_command h (LCD_CURSORSHIFT OR LCD_DISPLAYMOVE OR LCD_MOVELEFT) w))"

definition lcd_scroll_display_right :: "LCD_Handle option \<Rightarrow> world \<Rightarrow> (LCD_Handle option \<times> world) option" where
  "lcd_scroll_display_right handle w =
     (case handle of None \<Rightarrow> Some (None, w)
      | Some h \<Rightarrow>
          map_option (Pair (Some h))
            (lcd_send_command h (LCD_CURSORSHIFT OR LCD_DISPLAYMOVE OR LCD_MOVERIGHT) w))"

definition lcd_left_to_right :: "LCD_Handle option \<Rightarrow> world \<Rightarrow> (LCD_Handle option \<times> world) option" where
  "lcd_left_to_right handle w =
     (case handle of None \<Rightarrow> Some (None, w)
      | Some h \<Rightarrow>
          let h' = h\<lparr>displaymode := displaymode h OR LCD_ENTRYLEFT\<rparr>
          in map_option (Pair (Some h'))
               (lcd_send_command h' (LCD_ENTRYMODESET OR displaymode h') w))"

definition lcd_right_to_left :: "LCD_Handle option \<Rightarrow> world \<Rightarrow> (LCD_Handle option \<times> world) option" where
  "lcd_right_to_left handle w =
     (case handle of None \<Rightarrow> Some (None, w)
      | Some h \<Rightarrow>
          let h' = h\<lparr>displaymode := displaymode h AND NOT LCD_ENTRYLEFT\<rparr>
          in map_option (Pair (Some h'))
               (lcd_send_command h' (LCD_ENTRYMODESET OR displaymode h') w))"

definition lcd_autoscroll_off :: "LCD_Handle option \<Rightarrow> world \<Rightarrow> (LCD_Handle option \<times> world) option" where
  "lcd_autoscroll_off handle w =
     (case handle of None \<Rightarrow> Some (None, w)
      | Some h \<Rightarrow>
          let h' = h\<lparr>displaymode := displaymode h AND NOT LCD_ENTRYSHIFTINCREMENT\<rparr>
          in map_option (Pair (Some h'))
               (lcd_send_command h' (LCD_ENTRYMODESET OR displaymode h') w))"

definition lcd_autoscroll_on :: "LCD_Handle option \<Rightarrow> world \<Rightarrow> (LCD_Handle option \<times> world) option" where
  "lcd_autoscroll_on handle w =
     (case handle of None \<Rightarrow> Some (None, w)
      | Some h \<Rightarrow>
          let h' = h\<lparr>displaymode := displaymode h OR LCD_ENTRYSHIFTINCREMENT\<rparr>
          in map_option (Pair (Some h'))
               (lcd_send_command h' (LCD_ENTRYMODESET OR displaymode h') w))"

text \<open>
  \<open>lcd_set_cursor\<close>. \<open>cursor_row\<close> is the value of \<open>row\<close> after the two clamping
  statements: \<open>max_lines\<close> is \<open>sizeof(_row_offsets) / sizeof(*_row_offsets) = 4\<close>, and
  \<open>_numlines - 1\<close> is stored back into the \<open>uint8_t\<close> \<open>row\<close>, so that it wraps to 255
  when \<open>_numlines\<close> is 0. The read \<open>_row_offsets[row]\<close> happens while the argument of
  \<open>_lcd_send_command\<close> is evaluated, before anything is sent.
\<close>

definition cursor_row :: "LCD_Handle \<Rightarrow> u8 \<Rightarrow> u8" where
  "cursor_row h row =
     (let max_lines = (4 :: nat);
          row1 = (if unat row \<ge> max_lines then of_nat (max_lines - 1) else row)
      in if row1 \<ge> numlines h then numlines h - 1 else row1)"

definition lcd_set_cursor ::
  "LCD_Handle option \<Rightarrow> u8 \<Rightarrow> u8 \<Rightarrow> world \<Rightarrow> (fault + LCD_Handle option \<times> world) option" where
  "lcd_set_cursor handle col row w =
     (case handle of None \<Rightarrow> Some (Inr (None, w))
      | Some h \<Rightarrow>
          (case array_get (row_offsets h) (unat (cursor_row h row)) of
             Inl e \<Rightarrow> Some (Inl e)
           | Inr off \<Rightarrow>
               lift (map_option (Pair (Some h))
                 (lcd_send_command h (LCD_SETDDRAMADDR OR (col + off)) w))))"

definition lcd_write_char :: "LCD_Handle option \<Rightarrow> u8 \<Rightarrow> world \<Rightarrow> (LCD_Handle option \<times> world) option" where
  "lcd_write_char handle symbol w =
     (case handle of None \<Rightarrow> Some (None, w)
      | Some h \<Rightarrow> map_option (Pair (Some h)) (lcd_send_data h symbol w))"

text \<open>
  \<open>lcd_write_string\<close>. The argument \<open>text\<close> is the bytes of the buffer before its
  terminating 0, so that \<open>strlen\<close> is the length of the part before the first 0 byte, and
  the loop \<open>for (i = 0; i < strlen(text); i++) lcd_write_char(handle, text[i])\<close> runs
  over that part.
\<close>

definition strlen :: "u8 list \<Rightarrow> nat" where
  "strlen text = length (takeWhile (\<lambda>c. c \<noteq> 0) text)"

fun write_chars :: "LCD_Handle option \<Rightarrow> u8 list \<Rightarrow> world \<Rightarrow> (LCD_Handle option \<times> world) option" where
  "write_chars handle [] w = Some (handle, w)"
| "write_chars handle (c # cs) w =
     (case lcd_write_char handle c w of None \<Rightarrow> None
      | Some (handle', w') \<Rightarrow> write_chars handle' cs w')"

definition lcd_write_string :: "LCD_Handle option \<Rightarrow> u8 list \<Rightarrow> world \<Rightarrow> (LCD_Handle option \<times> world) option" where
  "lcd_write_string handle text w =
     (case handle of None \<Rightarrow> Some (None, w)
      | Some h \<Rightarrow> write_chars (Some h) (take (strlen text) text) w)"

definition lcd_write_char_at ::
  "LCD_Handle option \<Rightarrow> u8 \<Rightarrow> u8 \<Rightarrow> u8 \<Rightarrow> world \<Rightarrow> (fault + LCD_Handle option \<times> world) option" where
  "lcd_write_char_at handle symbol col row w =
     (case handle of None \<Rightarrow> Some (Inr (None, w))
      | Some h \<Rightarrow>
          obind (lcd_set_cursor (Some h) col row w)
            (\<lambda>(handle', w'). lift (lcd_write_char handle' symbol w')))"

definition lcd_write_string_at ::
  "LCD_Handle option \<Rightarrow> u8 list \<Rightarrow> u8 \<Rightarrow> u8 \<Rightarrow> world \<Rightarrow> (fault + LCD_Handle option \<times> world) option" where
  "lcd_write_string_at handle text col row w =
     (case handle of None \<Rightarrow> Some (Inr (None, w))
      | Some h \<Rightarrow>
          obind (lcd_set_cursor (Some h) col row w)
            (\<lambda>(handle', w'). lift (lcd_write_string handle' text w')))"

text \<open>
  \<open>lcd_create_char\<close>. \<open>data\<close> is the caller's buffer; the loop
  \<open>for (i = 0; i < 8; i++)\<close> sends the set-CGRAM-address command and then reads
  \<open>data[i]\<close> and sends it, which \<open>create_char_rows\<close> does for the indices still to go.
\<close>

fun create_char_rows :: "LCD_Handle \<Rightarrow> u8 \<Rightarrow> u8 list \<Rightarrow> nat list \<Rightarrow> world \<Rightarrow> (fault + world) option" where
  "create_char_rows h gcram_address data [] w = Some (Inr w)"
| "create_char_rows h gcram_address data (i # rest) w =
     (case lcd_send_command h (LCD_SETCGRAMADDR OR (gcram_address + of_nat i)) w of
        None \<Rightarrow> None
      | Some w1 \<Rightarrow>
          (case array_get data i of
             Inl e \<Rightarrow> Some (Inl e)
           | Inr d \<Rightarrow>
               (case lcd_send_data h d w1 of None \<Rightarrow> None
                | Some w2 \<Rightarrow> create_char_rows h gcram_address data rest w2)))"

definition lcd_create_char ::
  "LCD_Handle option \<Rightarrow> u8 \<Rightarrow> u8 list \<Rightarrow> world \<Rightarrow> (fault + LCD_Handle option \<times> world) option" where
  "lcd_create_char handle num data w =
     (case handle of None \<Rightarrow> Some (Inr (None, w))
      | Some h \<Rightarrow>
          let (ddram_address, w0) =
                (if rw_pin h \<noteq> 255
                 then (let (c, w') = lcd_read_command h w in (c AND 0x7F, w'))
                 else (0, w));
              gcram_address = push_bit 3 (num AND 0x7)
          in obind (create_char_rows h gcram_address data [0..<8] w0)
               (\<lambda>w1. if rw_pin h \<noteq> 255
                     then lift (map_option (Pair (Some h))
                            (lcd_send_command h (LCD_SETDDRAMADDR OR ddram_address) w1))
                     else Some (Inr (Some h, w1))))"

section \<open>Initialization and teardown\<close>

definition lcd_init_pins :: "LCD_Handle \<Rightarrow> world \<Rightarrow> world" where
  "lcd_init_pins h w =
     (let w1 = gpio_put_masked (data_pins_mask h) 0
                 (gpio_set_dir_out_masked (data_pins_mask h)
                   (gpio_init_mask (data_pins_mask h) w));
          w2 = gpio_put (rs_pin h) False (gpio_set_dir (rs_pin h) True (gpio_init (rs_pin h) w1));
          w3 = gpio_put (enable_pin h) False
                 (gpio_set_dir (enable_pin h) True (gpio_init (enable_pin h) w2))
      in if rw_pin h \<noteq> 255
         then gpio_put (rw_pin h) False (gpio_set_dir (rw_pin h) True (gpio_init (rw_pin h) w3))
         else w3)"

definition lcd_deinit_pins :: "LCD_Handle \<Rightarrow> world \<Rightarrow> world" where
  "lcd_deinit_pins h w =
     (let w1 = gpio_set_function (enable_pin h)
                 (gpio_set_function (rs_pin h)
                   (gpio_set_function_masked (data_pins_mask h) w))
      in if rw_pin h \<noteq> 255 then gpio_set_function (rw_pin h) w1 else w1)"

text \<open>
  \<open>_lcd_setup\<close>. The four stores \<open>_row_offsets[0] = 0x00\<close>, ..., \<open>_row_offsets[3] = 0x40 + cols\<close>
  fill the whole array, so the model stores the list of the four values.
\<close>

definition lcd_setup ::
  "LCD_Handle \<Rightarrow> u8 \<Rightarrow> u8 \<Rightarrow> u8 \<Rightarrow> world \<Rightarrow> (LCD_Handle \<times> world) option" where
  "lcd_setup h cols rows charsize w =
     (let h1 = (if rows > 1 then h\<lparr>displayfunction := displayfunction h OR LCD_2LINE\<rparr> else h);
          h2 = h1\<lparr>numlines := rows\<rparr>;
          h3 = h2\<lparr>row_offsets := [0x00, 0x40, 0x00 + cols, 0x40 + cols]\<rparr>;
          h4 = (if charsize \<noteq> LCD_5x8DOTS \<and> rows = 1
                then h3\<lparr>displayfunction := displayfunction h3 OR LCD_5x10DOTS\<rparr> else h3);
          w1 = (if displayfunction h4 AND LCD_8BITMODE \<noteq> 0
                then
                  let v1 = sleep_ms 5 (lcd_write_8_bits h4 (LCD_FUNCTIONSET OR displayfunction h4) w);
                      v2 = sleep_ms 5 (lcd_write_8_bits h4 (LCD_FUNCTIONSET OR displayfunction h4) v1)
                  in sleep_ms 5 (lcd_write_8_bits h4 (LCD_FUNCTIONSET OR displayfunction h4) v2)
                else
                  let v1 = sleep_ms 5 (lcd_write_4_bits h4 0x03 w);
                      v2 = sleep_ms 5 (lcd_write_4_bits h4 0x03 v1);
                      v3 = sleep_ms 5 (lcd_write_4_bits h4 0x03 v2)
                  in sleep_ms 5 (lcd_write_4_bits h4 0x02 v3))
      in Option.bind (lcd_send_command h4 (LCD_FUNCTIONSET OR displayfunction h4) w1)
           (\<lambda>w2. let h5 = h4\<lparr>displaycontrol := LCD_DISPLAYON OR LCD_CURSOROFF OR LCD_BLINKOFF\<rparr>
                 in Option.bind (lcd_send_command h5 (LCD_DISPLAYCONTROL OR displaycontrol h5) w2)
                      (\<lambda>w3. let h6 = h5\<lparr>displaymode := LCD_ENTRYLEFT OR LCD_ENTRYSHIFTDECREMENT\<rparr>
                            in map_option (Pair h6)
                                 (lcd_send_command h6 (LCD_ENTRYMODESET OR displaymode h6) w3))))"

text \<open>
  \<open>_lcd_init\<close>. The block \<open>malloc\<close> returns has indeterminate contents; every field is
  written before it is read (the eight stores into \<open>_data_pins\<close> fill the whole array).
  \<open>0x1 << d\<close> is \<open>push_bit (unat d) 1\<close> on 32 bits; C leaves the shift undefined for
  \<open>d \<ge> 31\<close>, which no GPIO number of the board reaches.
\<close>

definition lcd_init ::
  "u8 \<Rightarrow> u8 \<Rightarrow> u8 \<Rightarrow> u8 \<Rightarrow> u8 \<Rightarrow> u8 \<Rightarrow> u8 \<Rightarrow> u8 \<Rightarrow> u8 \<Rightarrow> u8 \<Rightarrow> u8 \<Rightarrow> u8 \<Rightarrow> u8 \<Rightarrow> u8 \<Rightarrow> bool
   \<Rightarrow> world \<Rightarrow> (LCD_Handle option \<times> world) option" where
  "lcd_init cols rows charsize rs rw enable d0 d1 d2 d3 d4 d5 d6 d7 eightbitmode w =
     (case malloc_result w of None \<Rightarrow> Some (None, w)
      | Some block \<Rightarrow>
          let w1 = sleep_ms 50 w;
              h1 = block\<lparr>rs_pin := rs, rw_pin := rw, enable_pin := enable,
                         data_pins := [d0, d1, d2, d3, d4, d5, d6, d7]\<rparr>;
              h2 = (if eightbitmode
                    then h1\<lparr>displayfunction := LCD_8BITMODE OR LCD_1LINE OR LCD_5x8DOTS,
                             data_pins_mask :=
                               push_bit (unat d0) 1 OR push_bit (unat d1) 1 OR
                               push_bit (unat d2) 1 OR push_bit (unat d3) 1 OR
                               push_bit (unat d4) 1 OR push_bit (unat d5) 1 OR
                               push_bit (unat d6) 1 OR push_bit (unat d7) 1\<rparr>
                    else h1\<lparr>displayfunction := LCD_4BITMODE OR LCD_1LINE OR LCD_5x8DOTS,
                             data_pins_mask :=
                               push_bit (unat d0) 1 OR push_bit (unat d1) 1 OR
                               push_bit (unat d2) 1 OR push_bit (unat d3) 1\<rparr>);
              w2 = lcd_init_pins h2 w1
          in (case lcd_setup h2 cols rows charsize w2 of None \<Rightarrow> None
              | Some (h3, w3) \<Rightarrow>
                  (case lcd_clear (Some h3) w3 of None \<Rightarrow> None
                   | Some (handle, w4) \<Rightarrow> lcd_home handle w4)))"

definition lcd_init_8bit ::
  "u8 \<Rightarrow> u8 \<Rightarrow> u8 \<Rightarrow> u8 \<Rightarrow> u8 \<Rightarrow> u8 \<Rightarrow> u8 \<Rightarrow> u8 \<Rightarrow> u8 \<Rightarrow> u8 \<Rightarrow> u8 \<Rightarrow> u8 \<Rightarrow> u8 \<Rightarrow> u8
   \<Rightarrow> world \<Rightarrow> (LCD_Handle option \<times> world) option" where
  "lcd_init_8bit cols rows charsize rs rw enable d0 d1 d2 d3 d4 d5 d6 d7 =
     lcd_init cols rows charsize rs rw enable d0 d1 d2 d3 d4 d5 d6 d7 True"

definition lcd_init_4bit ::
  "u8 \<Rightarrow> u8 \<Rightarrow> u8 \<Rightarrow> u8 \<Rightarrow> u8 \<Rightarrow> u8 \<Rightarrow> u8 \<Rightarrow> u8 \<Rightarrow> u8 \<Rightarrow> u8
   \<Rightarrow> world \<Rightarrow> (LCD_Handle option \<times> world) option" where
  "lcd_init_4bit cols rows charsize rs rw enable d4 d5 d6 d7 =
     lcd_init cols rows charsize rs rw enable d4 d5 d6 d7 0 0 0 0 False"

text \<open>
  \<open>lcd_deinit\<close> returns \<open>NULL\<close>; the struct is freed. The handle each call leaves is
  passed to the next one.
\<close>

definition lcd_deinit :: "LCD_Handle option \<Rightarrow> world \<Rightarrow> (LCD_Handle option \<times> world) option" where
  "lcd_deinit handle w =
     (case handle of None \<Rightarrow> Some (None, w)
      | Some h \<Rightarrow>
          (case lcd_clear (Some h) w of None \<Rightarrow> None
           | Some (handle1, w1) \<Rightarrow>
               (case lcd_home handle1 w1 of None \<Rightarrow> None
                | Some (handle2, w2) \<Rightarrow>
                    (case lcd_display_off handle2 w2 of None \<Rightarrow> None
                     | Some (None, w3) \<Rightarrow> Some (None, w3)
                     | Some (Some h3, w3) \<Rightarrow> Some (None, free (lcd_deinit_pins h3 w3))))))"

section \<open>Vocabulary for the properties\<close>

text \<open>
  One write transfer on the bus, as the list of calls it is made of: with the Read/Write
  line wired it is first driven low and the data lines are switched to output; Enable
  goes high; data line \<open>i\<close> is driven to \<open>levels ! i\<close> (four levels for a 4-bit transfer,
  eight for an 8-bit one); Enable goes low; the closing delay is 1 microsecond with the
  Read/Write line wired and 100 microseconds without it.
\<close>

definition bus_write :: "LCD_Handle \<Rightarrow> bool list \<Rightarrow> event list" where
  "bus_write h levels =
     (if rw_pin h \<noteq> 255
      then [GpioPut (rw_pin h) False, SleepUs 1, GpioSetDirOutMasked (data_pins_mask h)]
      else [])
     @ [GpioPut (enable_pin h) True, SleepUs 1]
     @ map (\<lambda>i. GpioPut (data_pins h ! i) (levels ! i)) [0..<length levels]
     @ [SleepUs 1, GpioPut (enable_pin h) False,
        SleepUs (if rw_pin h \<noteq> 255 then 1 else 100)]"

text \<open>The levels of bits \<open>lo\<close>, ..., \<open>lo + n - 1\<close> of a byte, lowest first.\<close>

definition bits_of :: "u8 \<Rightarrow> nat \<Rightarrow> nat \<Rightarrow> bool list" where
  "bits_of b lo n = map (\<lambda>i. bit b (lo + i)) [0..<n]"

text \<open>
  A sequence of operations through the command/data channel: command bytes, data bytes
  and millisecond delays, performed in order by \<open>_lcd_send_command\<close>, \<open>_lcd_send_data\<close>
  and \<open>sleep_ms\<close>.
\<close>

datatype bus_op = Command u8 | Data u8 | DelayMs nat

fun run_bus :: "LCD_Handle \<Rightarrow> bus_op list \<Rightarrow> world \<Rightarrow> world option" where
  "run_bus h [] w = Some w"
| "run_bus h (Command c # ops) w = Option.bind (lcd_send_command h c w) (run_bus h ops)"
| "run_bus h (Data d # ops) w = Option.bind (lcd_send_data h d w) (run_bus h ops)"
| "run_bus h (DelayMs n # ops) w = run_bus h ops (sleep_ms n w)"

text \<open>
  The world after \<open>n\<close> rounds of the busy loop in which the controller was busy: each
  round is one \<open>_lcd_busy\<close> poll followed by \<open>sleep_us(3)\<close>.
\<close>

fun spin :: "LCD_Handle \<Rightarrow> nat \<Rightarrow> world \<Rightarrow> world" where
  "spin h 0 w = w"
| "spin h (Suc n) w = spin h n (sleep_us 3 (snd (lcd_busy h w)))"

text \<open>
  One read transfer on the bus with \<open>n\<close> data lines, as the list of calls it is made
  of in world \<open>w\<close>; \<open>took es n w\<close> is \<open>w\<close> after the events \<open>es\<close>, \<open>n\<close> of them
  calls of \<open>gpio_get\<close>.
\<close>

definition bus_read :: "LCD_Handle \<Rightarrow> nat \<Rightarrow> world \<Rightarrow> event list" where
  "bus_read h n w =
     [GpioSetDirInMasked (data_pins_mask h), GpioPut (rw_pin h) True, SleepUs 1,
      GpioPut (enable_pin h) True, SleepUs 1]
     @ map (\<lambda>i. GpioGet (data_pins h ! i) (pins_in w (nreads w + i))) [0..<n]
     @ [GpioPut (enable_pin h) False, SleepUs 1]"

definition took :: "event list \<Rightarrow> nat \<Rightarrow> world \<Rightarrow> world" where
  "took es n w = w\<lparr>events := events w @ es, nreads := nreads w + n\<rparr>"

text \<open>
  The write transfers that carry one byte: one 8-bit transfer in 8-bit mode, and in 4-bit
  mode a transfer of bits 4 to 7 followed by a transfer of bits 0 to 3.
\<close>

definition transfers :: "LCD_Handle \<Rightarrow> u8 \<Rightarrow> event list" where
  "transfers h b =
     (if displayfunction h AND LCD_8BITMODE \<noteq> 0 then bus_write h (bits_of b 0 8)
      else bus_write h (bits_of b 4 4) @ bus_write h (bits_of b 0 4))"

text \<open>
  The fields of the handle that the transfer engine and the command/data channel read.
\<close>

definition wiring :: "LCD_Handle \<Rightarrow> u8 \<times> u8 \<times> u8 \<times> u8 list \<times> u32 \<times> u8" where
  "wiring h = (rs_pin h, rw_pin h, enable_pin h, data_pins h, data_pins_mask h, displayfunction h)"

text \<open>
  The events of one operation of the command/data channel on a handle whose Read/Write
  line is not wired.
\<close>

fun op_events :: "LCD_Handle \<Rightarrow> bus_op \<Rightarrow> event list" where
  "op_events h (Command c) = GpioPut (rs_pin h) False # transfers h c"
| "op_events h (Data d) = GpioPut (rs_pin h) True # transfers h d"
| "op_events h (DelayMs n) = [SleepMs n]"

text \<open>
  Initialization. \<open>setup_function df rows charsize\<close> is the function byte \<open>_lcd_setup\<close>
  reaches from \<open>df\<close>: the two-line flag for more than one row, the 5x10 font flag for a
  character size other than 5x8 on one row. \<open>handshake h\<close> is the mode-establishment
  sequence for a handle with that function byte: in 8-bit mode three 8-bit writes of the
  function-set byte, in 4-bit mode three 4-bit writes of 0x3 and one of 0x2, each write
  followed by \<open>sleep_ms(5)\<close>. \<open>pin_setup h\<close> is the calls of \<open>_lcd_init_pins\<close>, and
  \<open>initial_handle\<close> the struct once \<open>_lcd_init\<close> and \<open>_lcd_setup\<close> have stored every
  field.
\<close>

definition setup_function :: "u8 \<Rightarrow> u8 \<Rightarrow> u8 \<Rightarrow> u8" where
  "setup_function df rows charsize =
     df OR (if rows > 1 then LCD_2LINE else 0)
        OR (if charsize \<noteq> LCD_5x8DOTS \<and> rows = 1 then LCD_5x10DOTS else 0)"

definition handshake :: "LCD_Handle \<Rightarrow> event list" where
  "handshake h =
     (if displayfunction h AND LCD_8BITMODE \<noteq> 0
      then bus_write h (bits_of (LCD_FUNCTIONSET OR displayfunction h) 0 8) @ [SleepMs 5]
           @ bus_write h (bits_of (LCD_FUNCTIONSET OR displayfunction h) 0 8) @ [SleepMs 5]
           @ bus_write h (bits_of (LCD_FUNCTIONSET OR displayfunction h) 0 8) @ [SleepMs 5]
      else bus_write h [True, True, False, False] @ [SleepMs 5]
           @ bus_write h [True, True, False, False] @ [SleepMs 5]
           @ bus_write h [True, True, False, False] @ [SleepMs 5]
           @ bus_write h [False, True, False, False] @ [SleepMs 5])"

definition pin_setup :: "LCD_Handle \<Rightarrow> event list" where
  "pin_setup h =
     [GpioInitMask (data_pins_mask h), GpioSetDirOutMasked (data_pins_mask h),
      GpioPutMasked (data_pins_mask h) 0,
      GpioInit (rs_pin h), GpioSetDir (rs_pin h) True, GpioPut (rs_pin h) False,
      GpioInit (enable_pin h), GpioSetDir (enable_pin h) True, GpioPut (enable_pin h) False]
     @ (if rw_pin h \<noteq> 255
        then [GpioInit (rw_pin h), GpioSetDir (rw_pin h) True, GpioPut (rw_pin h) False]
        else [])"

definition initial_handle ::
  "u8 \<Rightarrow> u8 \<Rightarrow> u8 \<Rightarrow> u8 \<Rightarrow> u8 \<Rightarrow> u8 \<Rightarrow> u8 \<Rightarrow> u8 \<Rightarrow> u8 \<Rightarrow> u8 \<Rightarrow> u8 \<Rightarrow> u8 \<Rightarrow> u8 \<Rightarrow> u8 \<Rightarrow> bool
   \<Rightarrow> LCD_Handle" where
  "initial_handle cols rows charsize rs rw enable d0 d1 d2 d3 d4 d5 d6 d7 eightbitmode =
     \<lparr>rs_pin = rs, rw_pin = rw, enable_pin = enable,
      data_pins = [d0, d1, d2, d3, d4, d5, d6, d7],
      data_pins_mask =
        (if eightbitmode
         then push_bit (unat d0) 1 OR push_bit (unat d1) 1 OR push_bit (unat d2) 1 OR
              push_bit (unat d3) 1 OR push_bit (unat d4) 1 OR push_bit (unat d5) 1 OR
              push_bit (unat d6) 1 OR push_bit (unat d7) 1
         else push_bit (unat d0) 1 OR push_bit (unat d1) 1 OR push_bit (unat d2) 1 OR
              push_bit (unat d3) 1),
      displayfunction =
        setup_function (if eightbitmode then LCD_8BITMODE else LCD_4BITMODE) rows charsize,
      displaycontrol = LCD_DISPLAYON, displaymode = LCD_ENTRYLEFT, numlines = rows,
      row_offsets = [0x00, 0x40, 0x00 + cols, 0x40 + cols]\<rparr>"


text \<open>
  A poll of the busy flag is a read of the command register: Register-Select is driven
  low and one 8-bit read transfer follows, or in 4-bit mode two 4-bit read transfers of
  which the first carries bits 4 to 7. Each poll samples the data lines 8 times in all.
  \<open>poll h w k\<close> is the list of calls of poll number \<open>k\<close> (counted from 0) made from world
  \<open>w\<close> on; \<open>sample_index h j\<close> is the position, among the 8 samples of a poll, of the
  sample that becomes bit \<open>j\<close> of the value read; \<open>busy_sample h w k\<close> is the sample
  that becomes bit 7, the busy flag, in poll number \<open>k\<close>; \<open>polling h w n\<close> is the calls
  of \<open>n\<close> polls that are each followed by \<open>sleep_us(3)\<close>, and of one more poll.
\<close>

definition sample_index :: "LCD_Handle \<Rightarrow> nat \<Rightarrow> nat" where
  "sample_index h j =
     (if displayfunction h AND LCD_8BITMODE \<noteq> 0 then j
      else if j < 4 then j + 4 else j - 4)"

definition busy_sample :: "LCD_Handle \<Rightarrow> world \<Rightarrow> nat \<Rightarrow> bool" where
  "busy_sample h w k = pins_in w (nreads w + 8 * k + sample_index h 7)"

definition poll :: "LCD_Handle \<Rightarrow> world \<Rightarrow> nat \<Rightarrow> event list" where
  "poll h w k =
     GpioPut (rs_pin h) False #
     (if displayfunction h AND LCD_8BITMODE \<noteq> 0
      then bus_read h 8 (w\<lparr>nreads := nreads w + 8 * k\<rparr>)
      else bus_read h 4 (w\<lparr>nreads := nreads w + 8 * k\<rparr>)
           @ bus_read h 4 (w\<lparr>nreads := nreads w + 8 * k + 4\<rparr>))"

definition polling :: "LCD_Handle \<Rightarrow> world \<Rightarrow> nat \<Rightarrow> event list" where
  "polling h w n = concat (map (\<lambda>k. poll h w k @ [SleepUs 3]) [0..<n]) @ poll h w n"


section \<open>Example configurations\<close>

text \<open>
  The wirings of the README: 4-bit mode with RS, R/W, Enable on pins 6, 5, 4 and the data
  lines on pins 0 to 3; 8-bit mode with RS, R/W, Enable on pins 10, 9, 8 and the data lines
  on pins 0 to 7; each also with the R/W line not wired (255). The handles are the ones a
  16x2 display gets.
\<close>

definition handle_4bit :: "u8 \<Rightarrow> LCD_Handle" where
  "handle_4bit rw =
     \<lparr>rs_pin = 6, rw_pin = rw, enable_pin = 4, data_pins = [0, 1, 2, 3, 0, 0, 0, 0],
      data_pins_mask = 0xF, displayfunction = 0x08, displaycontrol = 0x04,
      displaymode = 0x02, numlines = 2, row_offsets = [0x00, 0x40, 0x10, 0x50]\<rparr>"

definition handle_8bit :: "u8 \<Rightarrow> LCD_Handle" where
  "handle_8bit rw =
     \<lparr>rs_pin = 10, rw_pin = rw, enable_pin = 8, data_pins = [0, 1, 2, 3, 4, 5, 6, 7],
      data_pins_mask = 0xFF, displayfunction = 0x18, displaycontrol = 0x04,
      displaymode = 0x02, numlines = 2, row_offsets = [0x00, 0x40, 0x10, 0x50]\<rparr>"

text \<open>
  A block of memory as \<open>malloc\<close> may return it, and two worlds: one whose data lines
  always read low, and one whose data line 7 reads high during the first two 8-bit reads
  (a controller that is busy for two polls).
\<close>

definition raw_block :: LCD_Handle where
  "raw_block =
     \<lparr>rs_pin = 0xAA, rw_pin = 0xAA, enable_pin = 0xAA,
      data_pins = [0xAA, 0xAA, 0xAA, 0xAA, 0xAA, 0xAA, 0xAA, 0xAA],
      data_pins_mask = 0xAAAAAAAA, displayfunction = 0xAA, displaycontrol = 0xAA,
      displaymode = 0xAA, numlines = 0xAA, row_offsets = [0xAA, 0xAA, 0xAA, 0xAA]\<rparr>"

definition idle_world :: world where
  "idle_world = \<lparr>events = [], pins_in = (\<lambda>k. False), nreads = 0, malloc_result = Some raw_block\<rparr>"

definition busy_world :: world where
  "busy_world =
     \<lparr>events = [], pins_in = (\<lambda>k. k = 7 \<or> k = 15), nreads = 0, malloc_result = Some raw_block\<rparr>"

text \<open>
  Three more worlds. In \<open>busy_once_world\<close> only the fourth sample reads high: a
  controller in 4-bit mode whose busy flag (data line 3 of the first 4-bit read) is set
  during one poll. \<open>register_reads vs\<close> are the samples of a controller in 8-bit mode
  whose read number \<open>k\<close> of the command register returns the byte \<open>vs ! k\<close>. In
  \<open>stale_world\<close> the controller is still executing a data write at DDRAM address 5 when
  it is read for the first time (0x85: busy flag set, address counter 5); at the second
  read it is ready and its address counter has advanced to 6 (0x06); the later reads find
  it ready, with the address counter that the operations of \<open>lcd_create_char\<close> for
  character 1 leave: 8 after the first set-CGRAM-address command, one more after each
  pattern byte, up to 0x10, and 5 after a set-DDRAM-address command for address 5.
\<close>

definition busy_once_world :: world where
  "busy_once_world =
     \<lparr>events = [], pins_in = (\<lambda>k. k = 3), nreads = 0, malloc_result = Some raw_block\<rparr>"



section \<open>Basic facts\<close>

lemma emit_Nil: "emit [] w = w"
  by (simp add: emit_def)

lemma emit_emit: "emit es2 (emit es1 w) = emit (es1 @ es2) w"
  by (simp add: emit_def)

lemma shifted_bit: "(drop_bit i (data :: u8) AND 0x01 \<noteq> 0) \<longleftrightarrow> bit data i"
  by (simp add: bit_iff_odd_drop_bit and_one_eq mod_2_eq_odd)

lemma fold_put_data_pin:
  "fold (put_data_pin h d) [0..<n] w = emit (map (\<lambda>i. GpioPut (data_pins h ! i) (bit d i)) [0..<n]) w"
  by (induction n) (simp_all add: emit_Nil emit_emit put_data_pin_def gpio_put_def shifted_bit)

lemma bits_of_length: "length (bits_of b lo n) = n"
  by (simp add: bits_of_def)

lemma bits_of_nth: "i < n \<Longrightarrow> bits_of b lo n ! i = bit b (lo + i)"
  by (simp add: bits_of_def)

lemma bus_write_bits:
  "bus_write h (bits_of d 0 n) =
     (if rw_pin h \<noteq> 255
      then [GpioPut (rw_pin h) False, SleepUs 1, GpioSetDirOutMasked (data_pins_mask h)]
      else [])
     @ [GpioPut (enable_pin h) True, SleepUs 1]
     @ map (\<lambda>i. GpioPut (data_pins h ! i) (bit d i)) [0..<n]
     @ [SleepUs 1, GpioPut (enable_pin h) False,
        SleepUs (if rw_pin h \<noteq> 255 then 1 else 100)]"
  by (simp add: bus_write_def bits_of_length bits_of_nth cong: map_cong)

lemma lcd_write_8_bits_events:
  "lcd_write_8_bits h d w = emit (bus_write h (bits_of d 0 8)) w"
  unfolding bus_write_bits
  by (simp add: lcd_write_8_bits_def Let_def fold_put_data_pin emit_emit
      gpio_put_def sleep_us_def gpio_set_dir_out_masked_def)

lemma lcd_write_4_bits_events:
  "lcd_write_4_bits h d w = emit (bus_write h (bits_of d 0 4)) w"
  unfolding bus_write_bits
  by (simp add: lcd_write_4_bits_def Let_def fold_put_data_pin emit_emit
      gpio_put_def sleep_us_def gpio_set_dir_out_masked_def)

lemma bits_of_high_nibble: "bits_of (drop_bit 4 d) 0 4 = bits_of d 4 4"
  by (simp add: bits_of_def bit_drop_bit_eq)

lemma upt_0_8: "[0..<8] = [0, 1, 2, 3, 4, 5, 6, 7]"
  by (simp add: upt_rec)

lemma upt_0_4: "[0..<4] = [0, 1, 2, 3]"
  by (simp add: upt_rec)

lemma emit_took: "emit es2 (took es1 n w) = took (es1 @ es2) n w"
  by (simp add: took_def emit_def)

lemma took_emit: "took es2 n (emit es1 w) = took (es1 @ es2) n w"
  by (simp add: took_def emit_def)

lemma took_took: "took es2 m (took es1 n w) = took (es1 @ es2) (n + m) w"
  by (simp add: took_def)

lemma took_fields [simp]:
  "pins_in (took es n w) = pins_in w" "nreads (took es n w) = nreads w + n"
  "events (took es n w) = events w @ es" "malloc_result (took es n w) = malloc_result w"
  by (simp_all add: took_def)

lemma emit_fields [simp]:
  "pins_in (emit es w) = pins_in w" "nreads (emit es w) = nreads w"
  "events (emit es w) = events w @ es" "malloc_result (emit es w) = malloc_result w"
  by (simp_all add: emit_def)

lemma gpio_get_took:
  "gpio_get pin w = (pins_in w (nreads w), took [GpioGet pin (pins_in w (nreads w))] 1 w)"
  by (simp add: gpio_get_def took_def emit_def Let_def)

lemma get_data_pin_step:
  "get_data_pin h i (acc, w) =
     (acc OR push_bit i (of_bool (pins_in w (nreads w))),
      took [GpioGet (data_pins h ! i) (pins_in w (nreads w))] 1 w)"
  by (simp add: get_data_pin_def gpio_get_took)

lemma fold_get_data_pin_Suc:
  "fold (get_data_pin h) [0..<Suc n] s =
     get_data_pin h n (fst (fold (get_data_pin h) [0..<n] s), snd (fold (get_data_pin h) [0..<n] s))"
  by simp

lemma fold_get_data_pin_world:
  "snd (fold (get_data_pin h) [0..<n] (acc, w)) =
     took (map (\<lambda>i. GpioGet (data_pins h ! i) (pins_in w (nreads w + i))) [0..<n]) n w"
proof (induction n)
  case 0
  show ?case by (simp add: took_def)
next
  case (Suc n)
  show ?case
    unfolding fold_get_data_pin_Suc get_data_pin_step Suc.IH
    by (simp add: took_took)
qed

lemma fold_get_data_pin_bits:
  "bit (fst (fold (get_data_pin h) [0..<n] (acc, w))) j \<longleftrightarrow>
     bit acc j \<or> (j < n \<and> j < 8 \<and> pins_in w (nreads w + j))"
proof (induction n)
  case 0
  show ?case by simp
next
  case (Suc n)
  show ?case
    unfolding fold_get_data_pin_Suc get_data_pin_step fold_get_data_pin_world
    using Suc.IH
    by (auto simp add: bit_or_iff bit_push_bit_iff bit_of_bool_iff less_Suc_eq)
qed

lemma lcd_read_8_bits_wired:
  assumes "rw_pin h \<noteq> 255"
  shows "snd (lcd_read_8_bits h w) = took (bus_read h 8 w) 8 w"
    and "bit (fst (lcd_read_8_bits h w)) j \<longleftrightarrow> j < 8 \<and> pins_in w (nreads w + j)"
  using assms
  by (simp_all add: lcd_read_8_bits_def Let_def split_beta fold_get_data_pin_world
      fold_get_data_pin_bits bus_read_def gpio_put_def sleep_us_def gpio_set_dir_in_masked_def
      emit_emit emit_took took_emit)

lemma lcd_read_4_bits_wired:
  assumes "rw_pin h \<noteq> 255"
  shows "snd (lcd_read_4_bits h w) = took (bus_read h 4 w) 4 w"
    and "bit (fst (lcd_read_4_bits h w)) j \<longleftrightarrow> j < 4 \<and> pins_in w (nreads w + j)"
  using assms
  by (auto simp add: lcd_read_4_bits_def Let_def split_beta fold_get_data_pin_world
      fold_get_data_pin_bits bus_read_def gpio_put_def sleep_us_def gpio_set_dir_in_masked_def
      emit_emit emit_took took_emit)

subsection \<open>The busy loop\<close>

lemma wait_busy_step:
  "fst (lcd_busy h w) \<Longrightarrow> wait_while_busy h w = wait_while_busy h (sleep_us 3 (snd (lcd_busy h w)))"
  by (subst wait_while_busy.simps) (simp add: Let_def)

lemma wait_busy_done:
  "\<not> fst (lcd_busy h w) \<Longrightarrow> wait_while_busy h w = Some (snd (lcd_busy h w))"
  by (subst wait_while_busy.simps) (simp add: Let_def)

lemma wait_spin:
  "(\<And>k. k < n \<Longrightarrow> fst (lcd_busy h (spin h k w))) \<Longrightarrow> wait_while_busy h w = wait_while_busy h (spin h n w)"
proof (induction n arbitrary: w)
  case 0
  show ?case by simp
next
  case (Suc n)
  have busy0: "fst (lcd_busy h w)"
    using Suc.prems [of 0] by simp
  have later: "fst (lcd_busy h (spin h k (sleep_us 3 (snd (lcd_busy h w)))))" if "k < n" for k
    using Suc.prems [of "Suc k"] that by simp
  have "wait_while_busy h w = wait_while_busy h (sleep_us 3 (snd (lcd_busy h w)))"
    using busy0 by (rule wait_busy_step)
  also have "\<dots> = wait_while_busy h (spin h n (sleep_us 3 (snd (lcd_busy h w))))"
    using later by (rule Suc.IH)
  finally show ?case by simp
qed

lemma wait_returns:
  assumes "\<And>k. k < n \<Longrightarrow> fst (lcd_busy h (spin h k w))"
    and "\<not> fst (lcd_busy h (spin h n w))"
  shows "wait_while_busy h w = Some (snd (lcd_busy h (spin h n w)))"
  using wait_spin [OF assms(1)] wait_busy_done [OF assms(2)] by simp

lemma wait_Some_polls:
  "wait_while_busy h w = Some w' \<Longrightarrow>
     \<exists>n. (\<forall>k<n. fst (lcd_busy h (spin h k w))) \<and> \<not> fst (lcd_busy h (spin h n w))
        \<and> w' = snd (lcd_busy h (spin h n w))"
proof (induction rule: wait_while_busy.raw_induct [rotated 1, consumes 1, case_names step])
  case (step wait h w w')
  note body = step(2) and IH = step(1)
  show ?case
  proof (cases "fst (lcd_busy h w)")
    case False
    with body have "w' = snd (lcd_busy h w)" by (simp add: Let_def)
    with False show ?thesis by (intro exI [of _ 0]) simp
  next
    case True
    with body have "wait h (sleep_us 3 (snd (lcd_busy h w))) = Some w'"
      by (simp add: Let_def)
    from IH [OF this] obtain n where
      n: "\<forall>k<n. fst (lcd_busy h (spin h k (sleep_us 3 (snd (lcd_busy h w)))))"
         "\<not> fst (lcd_busy h (spin h n (sleep_us 3 (snd (lcd_busy h w)))))"
         "w' = snd (lcd_busy h (spin h n (sleep_us 3 (snd (lcd_busy h w)))))"
      by blast
    have "\<forall>k<Suc n. fst (lcd_busy h (spin h k w))"
    proof (intro allI impI)
      fix k assume "k < Suc n"
      then show "fst (lcd_busy h (spin h k w))"
        using True n(1) by (cases k) simp_all
    qed
    with n(2,3) show ?thesis by (intro exI [of _ "Suc n"]) simp
  qed
qed

lemma wait_while_busy_iff:
  "wait_while_busy h w = Some w' \<longleftrightarrow>
     (\<exists>n. (\<forall>k<n. fst (lcd_busy h (spin h k w))) \<and> \<not> fst (lcd_busy h (spin h n w))
        \<and> w' = snd (lcd_busy h (spin h n w)))"
  using wait_Some_polls wait_returns by blast

lemma lcd_busy_bit7:
  "lcd_busy h w = (bit (fst (lcd_read_command h w)) 7, snd (lcd_read_command h w))"
  by (simp add: lcd_busy_def split_beta Let_def bit_iff_and_push_bit_not_eq_0)

subsection \<open>The command/data channel\<close>

lemma bits_of_8:
  "bits_of b 0 8 = [bit b 0, bit b 1, bit b 2, bit b 3, bit b 4, bit b 5, bit b 6, bit b 7]"
  by (simp add: bits_of_def upt_0_8)

lemma bits_of_low_nibble: "bits_of b 0 4 = [bit b 0, bit b 1, bit b 2, bit b 3]"
  by (simp add: bits_of_def upt_0_4)

lemma bits_of_high_nibble_list: "bits_of b 4 4 = [bit b 4, bit b 5, bit b 6, bit b 7]"
  by (simp add: bits_of_def upt_0_4)

lemma send_command_events:
  "lcd_send_command h b w =
     map_option (emit (GpioPut (rs_pin h) False # transfers h b))
       (if rw_pin h \<noteq> 255 then wait_while_busy h w else Some w)"
  by (cases "wait_while_busy h w")
    (simp_all add: lcd_send_command_def transfers_def Let_def gpio_put_def emit_emit
      lcd_write_8_bits_events lcd_write_4_bits_events bits_of_high_nibble)

lemma send_data_events:
  "lcd_send_data h b w =
     map_option (emit (GpioPut (rs_pin h) True # transfers h b))
       (if rw_pin h \<noteq> 255 then wait_while_busy h w else Some w)"
  by (cases "wait_while_busy h w")
    (simp_all add: lcd_send_data_def transfers_def Let_def gpio_put_def emit_emit
      lcd_write_8_bits_events lcd_write_4_bits_events bits_of_high_nibble)

lemma lcd_busy_fst: "fst (lcd_busy h w) = bit (fst (lcd_read_command h w)) 7"
  by (simp add: lcd_busy_bit7)

lemma lcd_busy_snd: "snd (lcd_busy h w) = snd (lcd_read_command h w)"
  by (simp add: lcd_busy_bit7)

lemma spin_Suc_right: "spin h (Suc n) w = sleep_us 3 (snd (lcd_busy h (spin h n w)))"
  by (induction n arbitrary: w) simp_all

lemma bus_read_emit: "bus_read h n (emit es w) = bus_read h n w"
  by (simp add: bus_read_def)

lemma read_command_wired_8bit:
  assumes "rw_pin h \<noteq> 255" and "displayfunction h AND LCD_8BITMODE \<noteq> 0"
  shows "snd (lcd_read_command h w) = took (GpioPut (rs_pin h) False # bus_read h 8 w) 8 w"
    and "bit (fst (lcd_read_command h w)) j \<longleftrightarrow> j < 8 \<and> pins_in w (nreads w + j)"
  using assms
  by (simp_all add: lcd_read_command_def Let_def lcd_read_8_bits_wired gpio_put_def
      took_emit bus_read_emit)

lemma read_command_wired_4bit:
  assumes "rw_pin h \<noteq> 255" and "displayfunction h AND LCD_8BITMODE = 0"
  shows "snd (lcd_read_command h w) =
           took (GpioPut (rs_pin h) False # bus_read h 4 w
                 @ bus_read h 4 (w\<lparr>nreads := nreads w + 4\<rparr>)) 8 w"
    and "bit (fst (lcd_read_command h w)) j \<longleftrightarrow>
           j < 8 \<and> pins_in w (nreads w + (if j < 4 then j + 4 else j - 4))"
proof -
  let ?w0 = "gpio_put (rs_pin h) False w"
  let ?r1 = "lcd_read_4_bits h ?w0"
  let ?r2 = "lcd_read_4_bits h (snd ?r1)"
  have rc: "lcd_read_command h w = (push_bit 4 (fst ?r1) OR fst ?r2, snd ?r2)"
    using assms(2) by (simp add: lcd_read_command_def Let_def split_beta)
  have w1: "snd ?r1 = took (GpioPut (rs_pin h) False # bus_read h 4 w) 4 w"
    using assms(1) by (simp add: lcd_read_4_bits_wired gpio_put_def took_emit bus_read_emit)
  have br: "bus_read h 4 (took es 4 w) = bus_read h 4 (w\<lparr>nreads := nreads w + 4\<rparr>)" for es
    by (simp add: bus_read_def)
  show "snd (lcd_read_command h w) =
           took (GpioPut (rs_pin h) False # bus_read h 4 w
                 @ bus_read h 4 (w\<lparr>nreads := nreads w + 4\<rparr>)) 8 w"
    using assms(1) by (simp add: rc lcd_read_4_bits_wired w1 took_took br)
  have b1: "bit (fst ?r1) i \<longleftrightarrow> i < 4 \<and> pins_in w (nreads w + i)" for i
    using assms(1) by (simp add: lcd_read_4_bits_wired gpio_put_def)
  have b2: "bit (fst ?r2) i \<longleftrightarrow> i < 4 \<and> pins_in w (nreads w + 4 + i)" for i
    using assms(1) by (simp add: lcd_read_4_bits_wired w1)
  show "bit (fst (lcd_read_command h w)) j \<longleftrightarrow>
           j < 8 \<and> pins_in w (nreads w + (if j < 4 then j + 4 else j - 4))"
    by (auto simp add: rc bit_or_iff bit_push_bit_iff b1 b2 add.commute add.left_commute)
qed

lemma read_command_wired_world:
  assumes "rw_pin h \<noteq> 255"
  shows "nreads (snd (lcd_read_command h w)) = nreads w + 8"
    and "pins_in (snd (lcd_read_command h w)) = pins_in w"
    and "malloc_result (snd (lcd_read_command h w)) = malloc_result w"
  using read_command_wired_8bit(1) [OF assms, of w] read_command_wired_4bit(1) [OF assms, of w]
  by (cases "displayfunction h AND LCD_8BITMODE = 0"; simp)+

lemma spin_world:
  assumes "rw_pin h \<noteq> 255"
  shows "nreads (spin h n w) = nreads w + 8 * n \<and> pins_in (spin h n w) = pins_in w"
  by (induction n arbitrary: w)
    (simp_all add: lcd_busy_snd sleep_us_def read_command_wired_world [OF assms])

lemma busy_flag_sample:
  assumes "rw_pin h \<noteq> 255"
  shows "bit (fst (lcd_read_command h (spin h k w))) 7 \<longleftrightarrow>
           pins_in w (nreads w + 8 * k + (if displayfunction h AND LCD_8BITMODE \<noteq> 0 then 7 else 3))"
  using read_command_wired_8bit(2) [OF assms, of "spin h k w" 7]
    read_command_wired_4bit(2) [OF assms, of "spin h k w" 7] spin_world [OF assms, of k w]
  by (cases "displayfunction h AND LCD_8BITMODE = 0") simp_all

lemma wait_while_busy_wired:
  "wait_while_busy h w = Some w1 \<longleftrightarrow>
     (\<exists>n. (\<forall>k<n. bit (fst (lcd_read_command h (spin h k w))) 7) \<and>
          \<not> bit (fst (lcd_read_command h (spin h n w))) 7 \<and>
          w1 = snd (lcd_read_command h (spin h n w)))"
  by (simp add: wait_while_busy_iff lcd_busy_fst lcd_busy_snd)

lemma bus_write_no_read: "GpioGet p v \<notin> set (bus_write h levels)"
  by (auto simp add: bus_write_def)

lemma transfers_no_read: "GpioGet p v \<notin> set (transfers h b)"
  by (simp add: transfers_def bus_write_no_read)

lemma bus_write_settle:
  "rw_pin h = 255 \<Longrightarrow>
     bus_write h levels =
       (GpioPut (enable_pin h) True # SleepUs 1 #
        map (\<lambda>i. GpioPut (data_pins h ! i) (levels ! i)) [0..<length levels] @ [SleepUs 1])
       @ [GpioPut (enable_pin h) False, SleepUs 100]"
  by (simp add: bus_write_def)

subsection \<open>Polls of the command register\<close>

lemma bus_read_same:
  "pins_in v = pins_in w \<Longrightarrow> nreads v = nreads w \<Longrightarrow> bus_read h n v = bus_read h n w"
  by (simp add: bus_read_def)

lemma read_command_poll:
  assumes "rw_pin h \<noteq> 255"
  shows "snd (lcd_read_command h w) = took (poll h w 0) 8 w"
    and "bit (fst (lcd_read_command h w)) j \<longleftrightarrow> j < 8 \<and> pins_in w (nreads w + sample_index h j)"
proof -
  have same: "bus_read h n (w\<lparr>nreads := nreads w + 8 * 0\<rparr>) = bus_read h n w" for n
    by (rule bus_read_same) simp_all
  have same4: "bus_read h n (w\<lparr>nreads := nreads w + 8 * 0 + 4\<rparr>) =
      bus_read h n (w\<lparr>nreads := nreads w + 4\<rparr>)" for n
    by (rule bus_read_same) simp_all
  show "snd (lcd_read_command h w) = took (poll h w 0) 8 w"
    unfolding poll_def same same4
    using read_command_wired_8bit(1) [OF assms, of w] read_command_wired_4bit(1) [OF assms, of w]
    by (cases "displayfunction h AND LCD_8BITMODE = 0") simp_all
  show "bit (fst (lcd_read_command h w)) j \<longleftrightarrow> j < 8 \<and> pins_in w (nreads w + sample_index h j)"
    unfolding sample_index_def
    using read_command_wired_8bit(2) [OF assms, of w j] read_command_wired_4bit(2) [OF assms, of w j]
    by (cases "displayfunction h AND LCD_8BITMODE = 0") simp_all
qed

lemma poll_took: "poll h (took es (8 * m) w) k = poll h w (m + k)"
proof -
  have a: "bus_read h n ((took es (8 * m) w)\<lparr>nreads := nreads (took es (8 * m) w) + 8 * k\<rparr>) =
      bus_read h n (w\<lparr>nreads := nreads w + 8 * (m + k)\<rparr>)" for n
    by (rule bus_read_same) (simp_all add: algebra_simps)
  have b: "bus_read h n ((took es (8 * m) w)\<lparr>nreads := nreads (took es (8 * m) w) + 8 * k + 4\<rparr>) =
      bus_read h n (w\<lparr>nreads := nreads w + 8 * (m + k) + 4\<rparr>)" for n
    by (rule bus_read_same) (simp_all add: algebra_simps)
  show ?thesis
    unfolding poll_def a b ..
qed

lemma busy_sample_took: "busy_sample h (took es (8 * m) w) k = busy_sample h w (m + k)"
  by (simp add: busy_sample_def algebra_simps)

lemma spin_polls:
  assumes "rw_pin h \<noteq> 255"
  shows "spin h n w = took (concat (map (\<lambda>k. poll h w k @ [SleepUs 3]) [0..<n])) (8 * n) w"
proof (induction n)
  case 0
  show ?case by (simp add: took_def)
next
  case (Suc n)
  let ?es = "concat (map (\<lambda>k. poll h w k @ [SleepUs 3]) [0..<n])"
  have "spin h (Suc n) w = sleep_us 3 (snd (lcd_read_command h (spin h n w)))"
    by (simp only: spin_Suc_right lcd_busy_snd)
  also have "\<dots> = emit [SleepUs 3] (took (poll h (took ?es (8 * n) w) 0) 8 (took ?es (8 * n) w))"
    by (simp only: Suc.IH read_command_poll(1) [OF assms] sleep_us_def)
  also have "\<dots> = took (?es @ poll h w n @ [SleepUs 3]) (8 * Suc n) w"
    by (simp add: poll_took emit_took took_took)
  finally show ?case by simp
qed

lemma busy_sample_spin:
  assumes "rw_pin h \<noteq> 255"
  shows "bit (fst (lcd_read_command h (spin h k w))) 7 \<longleftrightarrow> busy_sample h w k"
  unfolding busy_flag_sample [OF assms] busy_sample_def sample_index_def by simp

lemma wait_while_busy_polls:
  assumes "rw_pin h \<noteq> 255"
  shows "wait_while_busy h w = Some w1 \<longleftrightarrow>
     (\<exists>n. (\<forall>k<n. busy_sample h w k) \<and> \<not> busy_sample h w n \<and>
          w1 = took (polling h w n) (8 * Suc n) w)"
proof -
  have "snd (lcd_read_command h (spin h n w)) = took (polling h w n) (8 * Suc n) w" for n
    unfolding spin_polls [OF assms] read_command_poll(1) [OF assms] polling_def
    by (simp add: poll_took took_took)
  then show ?thesis
    by (simp add: wait_while_busy_wired busy_sample_spin [OF assms])
qed

lemma send_command_polls:
  assumes "rw_pin h \<noteq> 255"
  shows "lcd_send_command h b w = Some w' \<longleftrightarrow>
     (\<exists>n. (\<forall>k<n. busy_sample h w k) \<and> \<not> busy_sample h w n \<and>
          w' = took (polling h w n @ GpioPut (rs_pin h) False # transfers h b) (8 * Suc n) w)"
proof
  assume "lcd_send_command h b w = Some w'"
  then obtain z where z: "wait_while_busy h w = Some z"
    and w': "w' = emit (GpioPut (rs_pin h) False # transfers h b) z"
    using assms by (auto simp add: send_command_events)
  from z obtain n where n: "\<forall>k<n. busy_sample h w k" "\<not> busy_sample h w n"
    "z = took (polling h w n) (8 * Suc n) w"
    unfolding wait_while_busy_polls [OF assms] by blast
  from w' n(3) have "w' = took (polling h w n @ GpioPut (rs_pin h) False # transfers h b) (8 * Suc n) w"
    by (simp only: emit_took)
  with n(1,2) show "\<exists>n. (\<forall>k<n. busy_sample h w k) \<and> \<not> busy_sample h w n \<and>
          w' = took (polling h w n @ GpioPut (rs_pin h) False # transfers h b) (8 * Suc n) w"
    by blast
next
  assume "\<exists>n. (\<forall>k<n. busy_sample h w k) \<and> \<not> busy_sample h w n \<and>
          w' = took (polling h w n @ GpioPut (rs_pin h) False # transfers h b) (8 * Suc n) w"
  then obtain n where n: "\<forall>k<n. busy_sample h w k" "\<not> busy_sample h w n"
    and w': "w' = took (polling h w n @ GpioPut (rs_pin h) False # transfers h b) (8 * Suc n) w"
    by blast
  from n have "wait_while_busy h w = Some (took (polling h w n) (8 * Suc n) w)"
    unfolding wait_while_busy_polls [OF assms] by blast
  then have "lcd_send_command h b w =
      Some (emit (GpioPut (rs_pin h) False # transfers h b) (took (polling h w n) (8 * Suc n) w))"
    using assms by (simp add: send_command_events)
  with w' show "lcd_send_command h b w = Some w'"
    by (simp only: emit_took)
qed

lemma send_data_polls:
  assumes "rw_pin h \<noteq> 255"
  shows "lcd_send_data h b w = Some w' \<longleftrightarrow>
     (\<exists>n. (\<forall>k<n. busy_sample h w k) \<and> \<not> busy_sample h w n \<and>
          w' = took (polling h w n @ GpioPut (rs_pin h) True # transfers h b) (8 * Suc n) w)"
proof
  assume "lcd_send_data h b w = Some w'"
  then obtain z where z: "wait_while_busy h w = Some z"
    and w': "w' = emit (GpioPut (rs_pin h) True # transfers h b) z"
    using assms by (auto simp add: send_data_events)
  from z obtain n where n: "\<forall>k<n. busy_sample h w k" "\<not> busy_sample h w n"
    "z = took (polling h w n) (8 * Suc n) w"
    unfolding wait_while_busy_polls [OF assms] by blast
  from w' n(3) have "w' = took (polling h w n @ GpioPut (rs_pin h) True # transfers h b) (8 * Suc n) w"
    by (simp only: emit_took)
  with n(1,2) show "\<exists>n. (\<forall>k<n. busy_sample h w k) \<and> \<not> busy_sample h w n \<and>
          w' = took (polling h w n @ GpioPut (rs_pin h) True # transfers h b) (8 * Suc n) w"
    by blast
next
  assume "\<exists>n. (\<forall>k<n. busy_sample h w k) \<and> \<not> busy_sample h w n \<and>
          w' = took (polling h w n @ GpioPut (rs_pin h) True # transfers h b) (8 * Suc n) w"
  then obtain n where n: "\<forall>k<n. busy_sample h w k" "\<not> busy_sample h w n"
    and w': "w' = took (polling h w n @ GpioPut (rs_pin h) True # transfers h b) (8 * Suc n) w"
    by blast
  from n have "wait_while_busy h w = Some (took (polling h w n) (8 * Suc n) w)"
    unfolding wait_while_busy_polls [OF assms] by blast
  then have "lcd_send_data h b w =
      Some (emit (GpioPut (rs_pin h) True # transfers h b) (took (polling h w n) (8 * Suc n) w))"
    using assms by (simp add: send_data_events)
  with w' show "lcd_send_data h b w = Some w'"
    by (simp only: emit_took)
qed

lemma poll_8bit:
  "displayfunction h AND LCD_8BITMODE \<noteq> 0 \<Longrightarrow>
   poll h w k =
     [GpioPut (rs_pin h) False,
      GpioSetDirInMasked (data_pins_mask h), GpioPut (rw_pin h) True, SleepUs 1,
      GpioPut (enable_pin h) True, SleepUs 1,
      GpioGet (data_pins h ! 0) (pins_in w (nreads w + 8 * k + 0)),
      GpioGet (data_pins h ! 1) (pins_in w (nreads w + 8 * k + 1)),
      GpioGet (data_pins h ! 2) (pins_in w (nreads w + 8 * k + 2)),
      GpioGet (data_pins h ! 3) (pins_in w (nreads w + 8 * k + 3)),
      GpioGet (data_pins h ! 4) (pins_in w (nreads w + 8 * k + 4)),
      GpioGet (data_pins h ! 5) (pins_in w (nreads w + 8 * k + 5)),
      GpioGet (data_pins h ! 6) (pins_in w (nreads w + 8 * k + 6)),
      GpioGet (data_pins h ! 7) (pins_in w (nreads w + 8 * k + 7)),
      GpioPut (enable_pin h) False, SleepUs 1]"
  by (simp add: poll_def bus_read_def upt_0_8)

lemma poll_4bit:
  "displayfunction h AND LCD_8BITMODE = 0 \<Longrightarrow>
   poll h w k =
     [GpioPut (rs_pin h) False,
      GpioSetDirInMasked (data_pins_mask h), GpioPut (rw_pin h) True, SleepUs 1,
      GpioPut (enable_pin h) True, SleepUs 1,
      GpioGet (data_pins h ! 0) (pins_in w (nreads w + 8 * k + 0)),
      GpioGet (data_pins h ! 1) (pins_in w (nreads w + 8 * k + 1)),
      GpioGet (data_pins h ! 2) (pins_in w (nreads w + 8 * k + 2)),
      GpioGet (data_pins h ! 3) (pins_in w (nreads w + 8 * k + 3)),
      GpioPut (enable_pin h) False, SleepUs 1,
      GpioSetDirInMasked (data_pins_mask h), GpioPut (rw_pin h) True, SleepUs 1,
      GpioPut (enable_pin h) True, SleepUs 1,
      GpioGet (data_pins h ! 0) (pins_in w (nreads w + 8 * k + 4)),
      GpioGet (data_pins h ! 1) (pins_in w (nreads w + 8 * k + 5)),
      GpioGet (data_pins h ! 2) (pins_in w (nreads w + 8 * k + 6)),
      GpioGet (data_pins h ! 3) (pins_in w (nreads w + 8 * k + 7)),
      GpioPut (enable_pin h) False, SleepUs 1]"
  by (simp add: poll_def bus_read_def upt_0_4 add.assoc)

subsection \<open>Handles with the same wiring\<close>

lemma same_wiring_busy:
  assumes "wiring h' = wiring h"
  shows "lcd_busy h' w = lcd_busy h w"
proof -
  from assms have f: "rs_pin h' = rs_pin h" "rw_pin h' = rw_pin h" "enable_pin h' = enable_pin h"
    "data_pins h' = data_pins h" "data_pins_mask h' = data_pins_mask h"
    "displayfunction h' = displayfunction h"
    by (simp_all add: wiring_def)
  have g: "get_data_pin h' i s = get_data_pin h i s" for i s
    by (simp add: get_data_pin_def f)
  then have g': "get_data_pin h' = get_data_pin h"
    by (intro ext)
  have r8: "lcd_read_8_bits h' v = lcd_read_8_bits h v" for v
    unfolding lcd_read_8_bits_def g' f ..
  have r4: "lcd_read_4_bits h' v = lcd_read_4_bits h v" for v
    unfolding lcd_read_4_bits_def g' f ..
  have "lcd_read_command h' w = lcd_read_command h w"
    unfolding lcd_read_command_def r8 r4 f ..
  then show ?thesis
    by (simp add: lcd_busy_def)
qed

lemma same_wiring_spin:
  assumes "wiring h' = wiring h"
  shows "spin h' n w = spin h n w"
  by (induction n arbitrary: w) (simp_all add: same_wiring_busy [OF assms])

lemma same_wiring_wait:
  assumes "wiring h' = wiring h"
  shows "wait_while_busy h' w = wait_while_busy h w"
proof (cases "wait_while_busy h w")
  case None
  show ?thesis
  proof (cases "wait_while_busy h' w")
    case None
    with \<open>wait_while_busy h w = None\<close> show ?thesis by simp
  next
    case (Some w')
    then have "wait_while_busy h w = Some w'"
      by (simp add: wait_while_busy_iff same_wiring_busy [OF assms] same_wiring_spin [OF assms])
    with None show ?thesis by simp
  qed
next
  case (Some w')
  then have "wait_while_busy h' w = Some w'"
    by (simp add: wait_while_busy_iff same_wiring_busy [OF assms] same_wiring_spin [OF assms])
  with Some show ?thesis by simp
qed

lemma same_wiring_transfers:
  assumes "wiring h' = wiring h"
  shows "bus_write h' = bus_write h" and "transfers h' = transfers h"
proof -
  from assms have f: "rs_pin h' = rs_pin h" "rw_pin h' = rw_pin h" "enable_pin h' = enable_pin h"
    "data_pins h' = data_pins h" "data_pins_mask h' = data_pins_mask h"
    "displayfunction h' = displayfunction h"
    by (simp_all add: wiring_def)
  show w: "bus_write h' = bus_write h"
    by (simp add: bus_write_def f fun_eq_iff)
  show "transfers h' = transfers h"
    by (simp add: transfers_def f w fun_eq_iff)
qed

lemma same_wiring_send:
  assumes "wiring h' = wiring h"
  shows "lcd_send_command h' = lcd_send_command h" and "lcd_send_data h' = lcd_send_data h"
proof -
  from assms have f: "rs_pin h' = rs_pin h" "rw_pin h' = rw_pin h"
    by (simp_all add: wiring_def)
  show "lcd_send_command h' = lcd_send_command h"
    by (simp add: fun_eq_iff send_command_events same_wiring_wait [OF assms]
        same_wiring_transfers [OF assms] f)
  show "lcd_send_data h' = lcd_send_data h"
    by (simp add: fun_eq_iff send_data_events same_wiring_wait [OF assms]
        same_wiring_transfers [OF assms] f)
qed

subsection \<open>Initialization\<close>

lemma nibble_3: "bits_of 3 0 4 = [True, True, False, False]"
  by (simp add: bits_of_low_nibble)

lemma nibble_2: "bits_of 2 0 4 = [False, True, False, False]"
  by (simp add: bits_of_low_nibble)

lemma bind_map_option: "Option.bind m (\<lambda>x. map_option f (g x)) = map_option f (Option.bind m g)"
  by (cases m) simp_all

lemma bind_Some_right: "Option.bind m Some = m"
  by (cases m) simp_all

lemma run_bus_fun:
  "run_bus h [] = Some"
  "run_bus h (Command c # ops) = (\<lambda>w. Option.bind (lcd_send_command h c w) (run_bus h ops))"
  "run_bus h (Data d # ops) = (\<lambda>w. Option.bind (lcd_send_data h d w) (run_bus h ops))"
  "run_bus h (DelayMs n # ops) = (\<lambda>w. run_bus h ops (sleep_ms n w))"
  by (simp_all add: fun_eq_iff)

lemma lcd_setup_run:
  "lcd_setup h cols rows charsize w =
     (let h' = h\<lparr>displayfunction := setup_function (displayfunction h) rows charsize,
                 displaycontrol := LCD_DISPLAYON, displaymode := LCD_ENTRYLEFT,
                 numlines := rows, row_offsets := [0x00, 0x40, 0x00 + cols, 0x40 + cols]\<rparr>
      in map_option (Pair h')
           (run_bus h'
              [Command (LCD_FUNCTIONSET OR displayfunction h'),
               Command (LCD_DISPLAYCONTROL OR LCD_DISPLAYON),
               Command (LCD_ENTRYMODESET OR LCD_ENTRYLEFT)]
              (emit (handshake h') w)))"
proof -
  define h' where "h' = h\<lparr>displayfunction := setup_function (displayfunction h) rows charsize,
                 displaycontrol := LCD_DISPLAYON, displaymode := LCD_ENTRYLEFT,
                 numlines := rows, row_offsets := [0x00, 0x40, 0x00 + cols, 0x40 + cols]\<rparr>"
  define h4 where "h4 = h\<lparr>displayfunction := setup_function (displayfunction h) rows charsize,
                 numlines := rows, row_offsets := [0x00, 0x40, 0x00 + cols, 0x40 + cols]\<rparr>"
  have h4_eq:
    "(if charsize \<noteq> LCD_5x8DOTS \<and> rows = 1
      then (if 1 < rows then h\<lparr>displayfunction := displayfunction h OR LCD_2LINE\<rparr> else h)
             \<lparr>numlines := rows, row_offsets := [0x00, 0x40, 0x00 + cols, 0x40 + cols],
              displayfunction :=
                displayfunction
                  ((if 1 < rows then h\<lparr>displayfunction := displayfunction h OR LCD_2LINE\<rparr> else h)
                     \<lparr>numlines := rows, row_offsets := [0x00, 0x40, 0x00 + cols, 0x40 + cols]\<rparr>)
                OR LCD_5x10DOTS\<rparr>
      else (if 1 < rows then h\<lparr>displayfunction := displayfunction h OR LCD_2LINE\<rparr> else h)
             \<lparr>numlines := rows, row_offsets := [0x00, 0x40, 0x00 + cols, 0x40 + cols]\<rparr>) = h4"
    by (rule LCD_Handle.equality) (auto simp add: h4_def setup_function_def)
  have w4: "wiring h4 = wiring h'" "wiring (h4\<lparr>displaycontrol := 0x04\<rparr>) = wiring h'"
    "wiring (h4\<lparr>displaycontrol := 0x04, displaymode := 0x02\<rparr>) = wiring h'"
    by (simp_all add: wiring_def h4_def h'_def)
  have h6: "h4\<lparr>displaycontrol := 0x04, displaymode := 0x02\<rparr> = h'"
    by (simp add: h4_def h'_def)
  have df: "displayfunction h4 = displayfunction h'"
    by (simp add: h4_def h'_def)
  have hs: "(if displayfunction h4 AND LCD_8BITMODE \<noteq> 0
        then sleep_ms 5 (lcd_write_8_bits h4 (LCD_FUNCTIONSET OR displayfunction h4)
               (sleep_ms 5 (lcd_write_8_bits h4 (LCD_FUNCTIONSET OR displayfunction h4)
                 (sleep_ms 5 (lcd_write_8_bits h4 (LCD_FUNCTIONSET OR displayfunction h4) w)))))
        else sleep_ms 5 (lcd_write_4_bits h4 0x02
               (sleep_ms 5 (lcd_write_4_bits h4 0x03
                 (sleep_ms 5 (lcd_write_4_bits h4 0x03
                   (sleep_ms 5 (lcd_write_4_bits h4 0x03 w)))))))) = emit (handshake h') w"
    by (simp add: handshake_def lcd_write_8_bits_events lcd_write_4_bits_events
        sleep_ms_def emit_emit nibble_3 nibble_2 same_wiring_transfers(1) [OF w4(1)] df)
  have unfold: "lcd_setup h cols rows charsize w =
     Option.bind (lcd_send_command h4 (LCD_FUNCTIONSET OR displayfunction h4) (emit (handshake h') w))
       (\<lambda>w2. Option.bind
          (lcd_send_command (h4\<lparr>displaycontrol := LCD_DISPLAYON OR LCD_CURSOROFF OR LCD_BLINKOFF\<rparr>)
             (LCD_DISPLAYCONTROL OR
              displaycontrol (h4\<lparr>displaycontrol := LCD_DISPLAYON OR LCD_CURSOROFF OR LCD_BLINKOFF\<rparr>)) w2)
          (\<lambda>w3. map_option
                  (Pair (h4\<lparr>displaycontrol := LCD_DISPLAYON OR LCD_CURSOROFF OR LCD_BLINKOFF,
                             displaymode := LCD_ENTRYLEFT OR LCD_ENTRYSHIFTDECREMENT\<rparr>))
                  (lcd_send_command
                     (h4\<lparr>displaycontrol := LCD_DISPLAYON OR LCD_CURSOROFF OR LCD_BLINKOFF,
                          displaymode := LCD_ENTRYLEFT OR LCD_ENTRYSHIFTDECREMENT\<rparr>)
                     (LCD_ENTRYMODESET OR
                      displaymode (h4\<lparr>displaycontrol := LCD_DISPLAYON OR LCD_CURSOROFF OR LCD_BLINKOFF,
                          displaymode := LCD_ENTRYLEFT OR LCD_ENTRYSHIFTDECREMENT\<rparr>)) w3)))"
    unfolding lcd_setup_def Let_def h4_eq hs ..
  have "lcd_setup h cols rows charsize w =
     Option.bind (lcd_send_command h' (LCD_FUNCTIONSET OR displayfunction h') (emit (handshake h') w))
       (\<lambda>w2. Option.bind (lcd_send_command h' 0x0C w2)
          (\<lambda>w3. map_option (Pair h') (lcd_send_command h' 0x06 w3)))"
    unfolding unfold
    using same_wiring_send(1) [OF w4(1)] same_wiring_send(1) [OF w4(2)]
      same_wiring_send(1) [OF w4(3)] h6 df
    by (simp add: h'_def)
  then show ?thesis
    unfolding h'_def [symmetric] Let_def
    by (simp add: bind_map_option bind_Some_right run_bus_fun)
qed

lemma lcd_init_pins_events: "lcd_init_pins h w = emit (pin_setup h) w"
  by (simp add: lcd_init_pins_def pin_setup_def Let_def emit_emit gpio_put_def gpio_init_def
      gpio_set_dir_def gpio_init_mask_def gpio_set_dir_out_masked_def gpio_put_masked_def)

lemma run_bus_append:
  "run_bus h (ops1 @ ops2) w = Option.bind (run_bus h ops1 w) (run_bus h ops2)"
proof (induction ops1 arbitrary: w)
  case Nil
  show ?case by simp
next
  case (Cons op ops1)
  show ?case
    by (cases op) (simp_all add: Cons.IH Option.bind_assoc cong: Option.bind_cong)
qed

lemma lcd_clear_run:
  "lcd_clear (Some h) w = map_option (Pair (Some h)) (run_bus h [Command LCD_CLEARDISPLAY, DelayMs 5] w)"
  by (cases "lcd_send_command h 1 w") (simp_all add: lcd_clear_def)

lemma lcd_home_run:
  "lcd_home (Some h) w = map_option (Pair (Some h)) (run_bus h [Command LCD_RETURNHOME, DelayMs 5] w)"
  by (cases "lcd_send_command h 2 w") (simp_all add: lcd_home_def)

lemma lcd_init_run:
  "lcd_init cols rows charsize rs rw enable d0 d1 d2 d3 d4 d5 d6 d7 eightbitmode w =
     (case malloc_result w of None \<Rightarrow> Some (None, w)
      | Some block \<Rightarrow>
          let h = initial_handle cols rows charsize rs rw enable d0 d1 d2 d3 d4 d5 d6 d7 eightbitmode
          in map_option (Pair (Some h))
               (run_bus h
                  [Command (LCD_FUNCTIONSET OR displayfunction h),
                   Command (LCD_DISPLAYCONTROL OR LCD_DISPLAYON),
                   Command (LCD_ENTRYMODESET OR LCD_ENTRYLEFT),
                   Command LCD_CLEARDISPLAY, DelayMs 5,
                   Command LCD_RETURNHOME, DelayMs 5]
                  (emit (SleepMs 50 # pin_setup h @ handshake h) w)))"
proof (cases "malloc_result w")
  case None
  then show ?thesis by (simp add: lcd_init_def)
next
  case (Some block)
  define h where
    "h = initial_handle cols rows charsize rs rw enable d0 d1 d2 d3 d4 d5 d6 d7 eightbitmode"
  define h2 where "h2 =
     (if eightbitmode
      then block\<lparr>rs_pin := rs, rw_pin := rw, enable_pin := enable,
                 data_pins := [d0, d1, d2, d3, d4, d5, d6, d7],
                 displayfunction := LCD_8BITMODE OR LCD_1LINE OR LCD_5x8DOTS,
                 data_pins_mask :=
                   push_bit (unat d0) 1 OR push_bit (unat d1) 1 OR
                   push_bit (unat d2) 1 OR push_bit (unat d3) 1 OR
                   push_bit (unat d4) 1 OR push_bit (unat d5) 1 OR
                   push_bit (unat d6) 1 OR push_bit (unat d7) 1\<rparr>
      else block\<lparr>rs_pin := rs, rw_pin := rw, enable_pin := enable,
                 data_pins := [d0, d1, d2, d3, d4, d5, d6, d7],
                 displayfunction := LCD_4BITMODE OR LCD_1LINE OR LCD_5x8DOTS,
                 data_pins_mask :=
                   push_bit (unat d0) 1 OR push_bit (unat d1) 1 OR
                   push_bit (unat d2) 1 OR push_bit (unat d3) 1\<rparr>)"
  have e_init: "lcd_init cols rows charsize rs rw enable d0 d1 d2 d3 d4 d5 d6 d7 eightbitmode w =
     (case lcd_setup h2 cols rows charsize (lcd_init_pins h2 (sleep_ms 50 w)) of None \<Rightarrow> None
      | Some (h3, w3) \<Rightarrow>
          (case lcd_clear (Some h3) w3 of None \<Rightarrow> None
           | Some (handle, w4) \<Rightarrow> lcd_home handle w4))"
    unfolding lcd_init_def Let_def h2_def using Some by simp
  have h': "h2\<lparr>displayfunction := setup_function (displayfunction h2) rows charsize,
                 displaycontrol := LCD_DISPLAYON, displaymode := LCD_ENTRYLEFT,
                 numlines := rows, row_offsets := [0x00, 0x40, 0x00 + cols, 0x40 + cols]\<rparr> = h"
    by (rule LCD_Handle.equality) (simp_all add: h2_def h_def initial_handle_def)
  have pins: "pin_setup h2 = pin_setup h"
    by (simp add: pin_setup_def h2_def h_def initial_handle_def)
  have e_setup: "lcd_setup h2 cols rows charsize (lcd_init_pins h2 (sleep_ms 50 w)) =
      map_option (Pair h)
        (run_bus h
           [Command (LCD_FUNCTIONSET OR displayfunction h),
            Command (LCD_DISPLAYCONTROL OR LCD_DISPLAYON),
            Command (LCD_ENTRYMODESET OR LCD_ENTRYLEFT)]
           (emit (SleepMs 50 # pin_setup h @ handshake h) w))"
    unfolding lcd_setup_run Let_def h'
    by (simp add: lcd_init_pins_events sleep_ms_def emit_emit pins)
  have e_split: "[Command (LCD_FUNCTIONSET OR displayfunction h),
                   Command (LCD_DISPLAYCONTROL OR LCD_DISPLAYON),
                   Command (LCD_ENTRYMODESET OR LCD_ENTRYLEFT),
                   Command LCD_CLEARDISPLAY, DelayMs 5,
                   Command LCD_RETURNHOME, DelayMs 5] =
      [Command (LCD_FUNCTIONSET OR displayfunction h),
                   Command (LCD_DISPLAYCONTROL OR LCD_DISPLAYON),
                   Command (LCD_ENTRYMODESET OR LCD_ENTRYLEFT)] @
      [Command LCD_CLEARDISPLAY, DelayMs 5] @ [Command LCD_RETURNHOME, DelayMs 5]"
    by simp
  show ?thesis
    unfolding e_init e_setup e_split run_bus_append h_def [symmetric] Let_def
    using Some
    by (auto simp add: lcd_clear_run lcd_home_run split: option.splits Option.bind_splits)
qed

lemma run_bus_unwired:
  "rw_pin h = 255 \<Longrightarrow> run_bus h ops w = Some (emit (concat (map (op_events h) ops)) w)"
proof (induction ops arbitrary: w)
  case Nil
  show ?case by (simp add: emit_Nil)
next
  case (Cons op ops)
  then show ?case
    by (cases op) (simp_all add: send_command_events send_data_events emit_emit sleep_ms_def)
qed

lemma function_set_bits:
  "bits_of (LCD_FUNCTIONSET OR (LCD_8BITMODE OR (if two then LCD_2LINE else 0)
      OR (if tall then LCD_5x10DOTS else 0))) 0 8 =
     [False, False, tall, two, True, True, False, False]"
  by (cases two; cases tall) (simp_all add: bits_of_8)

lemma initial_handle_4bit_example:
  "initial_handle 16 2 LCD_5x8DOTS 6 rw 4 0 1 2 3 0 0 0 0 False = handle_4bit rw"
  by (simp add: initial_handle_def handle_4bit_def setup_function_def)

lemma initial_handle_8bit_example:
  "initial_handle 16 2 LCD_5x8DOTS 10 rw 8 0 1 2 3 4 5 6 7 True = handle_8bit rw"
  by (simp add: initial_handle_def handle_8bit_def setup_function_def)

lemma example_fields:
  "rw_pin (handle_4bit rw) = rw" "rw_pin (handle_8bit rw) = rw"
  "displayfunction (handle_4bit rw) = 0x08" "displayfunction (handle_8bit rw) = 0x18"
  "malloc_result idle_world = Some raw_block"
  by (simp_all add: handle_4bit_def handle_8bit_def idle_world_def)

subsection \<open>Cursor addressing\<close>

lemma cursor_row_zero: "numlines h = 0 \<Longrightarrow> cursor_row h row = 255"
  by (simp add: cursor_row_def Let_def)

lemma cursor_row_min:
  assumes "numlines h \<noteq> 0"
  shows "unat (cursor_row h row) = min (unat row) (min 3 (unat (numlines h) - 1))"
proof -
  have n: "unat (numlines h - 1) = unat (numlines h) - 1"
    using assms by (simp add: unat_minus_one)
  have pos: "0 < unat (numlines h)"
    using assms by (simp add: unat_gt_0)
  show ?thesis
    using pos by (auto simp add: cursor_row_def Let_def word_le_nat_alt n min_def)
qed

lemma cursor_row_in_table: "numlines h \<noteq> 0 \<Longrightarrow> unat (cursor_row h row) < 4"
  by (simp add: cursor_row_min)

lemma lift_no_fault: "lift m \<noteq> Some (Inl e)"
  by (cases m) (simp_all add: lift_def)

lemma set_cursor_in_table:
  assumes "unat (cursor_row h row) < length (row_offsets h)"
  shows "lcd_set_cursor (Some h) col row w =
           lift (map_option (Pair (Some h))
             (lcd_send_command h
                (LCD_SETDDRAMADDR OR (col + row_offsets h ! unat (cursor_row h row))) w))"
  using assms by (simp add: lcd_set_cursor_def array_get_def)

lemma set_cursor_outside:
  assumes "\<not> unat (cursor_row h row) < length (row_offsets h)"
  shows "lcd_set_cursor (Some h) col row w = Some (Inl OutOfBounds)"
  using assms by (simp add: lcd_set_cursor_def array_get_def)

lemma one_le_word: "1 \<le> (n :: u8) \<longleftrightarrow> n \<noteq> 0"
  by (simp add: word_le_nat_alt unat_gt_0 Suc_le_eq)

lemma lcd_init_result:
  assumes "lcd_init cols rows charsize rs rw enable d0 d1 d2 d3 d4 d5 d6 d7 eightbitmode w
             = Some (Some h, w')"
  shows "h = initial_handle cols rows charsize rs rw enable d0 d1 d2 d3 d4 d5 d6 d7 eightbitmode"
  using assms unfolding lcd_init_run
  by (auto simp add: Let_def split: option.splits)

lemma lcd_init_unwired:
  assumes "rw = 255" and "malloc_result w = Some block"
  shows "lcd_init cols rows charsize rs rw enable d0 d1 d2 d3 d4 d5 d6 d7 eightbitmode w =
     (let h = initial_handle cols rows charsize rs rw enable d0 d1 d2 d3 d4 d5 d6 d7 eightbitmode
      in Some (Some h,
           emit (SleepMs 50 # pin_setup h @ handshake h
                 @ concat (map (op_events h)
                     [Command (LCD_FUNCTIONSET OR displayfunction h),
                      Command (LCD_DISPLAYCONTROL OR LCD_DISPLAYON),
                      Command (LCD_ENTRYMODESET OR LCD_ENTRYLEFT),
                      Command LCD_CLEARDISPLAY, DelayMs 5,
                      Command LCD_RETURNHOME, DelayMs 5])) w))"
proof -
  have u: "rw_pin (initial_handle cols rows charsize rs rw enable d0 d1 d2 d3 d4 d5 d6 d7 eightbitmode) = 255"
    using assms(1) by (simp add: initial_handle_def)
  show ?thesis
    unfolding lcd_init_run Let_def run_bus_unwired [OF u]
    using assms(2) by (simp add: emit_emit)
qed

lemma initial_handle_fields:
  "numlines (initial_handle cols rows charsize rs rw enable d0 d1 d2 d3 d4 d5 d6 d7 eightbitmode) = rows"
  "row_offsets (initial_handle cols rows charsize rs rw enable d0 d1 d2 d3 d4 d5 d6 d7 eightbitmode)
     = [0x00, 0x40, 0x00 + cols, 0x40 + cols]"
  "rw_pin (initial_handle cols rows charsize rs rw enable d0 d1 d2 d3 d4 d5 d6 d7 eightbitmode) = rw"
  "handle_wf (initial_handle cols rows charsize rs rw enable d0 d1 d2 d3 d4 d5 d6 d7 eightbitmode)"
  by (simp_all add: initial_handle_def handle_wf_def)

lemma lcd_init_4bit_unwired_example:
  "lcd_init_4bit 16 rows LCD_5x8DOTS 6 255 4 0 1 2 3 idle_world =
     (let h = initial_handle 16 rows LCD_5x8DOTS 6 255 4 0 1 2 3 0 0 0 0 False
      in Some (Some h,
           emit (SleepMs 50 # pin_setup h @ handshake h
                 @ concat (map (op_events h)
                     [Command (LCD_FUNCTIONSET OR displayfunction h),
                      Command (LCD_DISPLAYCONTROL OR LCD_DISPLAYON),
                      Command (LCD_ENTRYMODESET OR LCD_ENTRYLEFT),
                      Command LCD_CLEARDISPLAY, DelayMs 5,
                      Command LCD_RETURNHOME, DelayMs 5])) idle_world))"
  unfolding lcd_init_4bit_def
  by (rule lcd_init_unwired) (simp_all add: idle_world_def)

lemma lcd_init_8bit_unwired_example:
  "lcd_init_8bit 16 rows LCD_5x8DOTS 10 255 8 0 1 2 3 4 5 6 7 idle_world =
     (let h = initial_handle 16 rows LCD_5x8DOTS 10 255 8 0 1 2 3 4 5 6 7 True
      in Some (Some h,
           emit (SleepMs 50 # pin_setup h @ handshake h
                 @ concat (map (op_events h)
                     [Command (LCD_FUNCTIONSET OR displayfunction h),
                      Command (LCD_DISPLAYCONTROL OR LCD_DISPLAYON),
                      Command (LCD_ENTRYMODESET OR LCD_ENTRYLEFT),
                      Command LCD_CLEARDISPLAY, DelayMs 5,
                      Command LCD_RETURNHOME, DelayMs 5])) idle_world))"
  unfolding lcd_init_8bit_def
  by (rule lcd_init_unwired) (simp_all add: idle_world_def)

subsection \<open>Custom characters\<close>



lemma cgram_address:
  assumes "num \<le> (7 :: u8)" and "i < 8"
  shows "unat (8 * num + of_nat i) = 8 * unat num + i"
proof -
  have n: "unat num \<le> 7"
    using assms(1) by (simp add: word_le_nat_alt)
  have a: "unat (8 * num) = 8 * unat num"
    using n by (simp add: unat_word_ariths)
  have b: "unat (of_nat i :: u8) = i"
    using assms(2) by (simp add: unat_of_nat)
  have "unat (8 * num + of_nat i) = (8 * unat num + i) mod 256"
    by (simp add: unat_word_ariths(1) a b)
  also have "\<dots> = 8 * unat num + i"
    using n assms(2) by simp
  finally show ?thesis .
qed





subsection \<open>Reads that return given bytes\<close>






section \<open>Framing of a byte\<close>

text \<open>
  C1. Sending a byte \<open>b\<close> as a command or as data first waits (with the Read/Write line
  wired, for the busy loop; otherwise not at all), then drives Register-Select (low for a
  command, high for data) and then performs the write transfers of \<open>b\<close> and nothing else:
  in 8-bit mode exactly one transfer that drives data lines 0 to 7 with bits 0 to 7 of
  \<open>b\<close>; in 4-bit mode exactly two transfers on data lines 0 to 3, the first with bits
  4 to 7 of \<open>b\<close> (the high nibble) and the second with bits 0 to 3 (the low nibble).
  The call returns exactly when the wait does.
\<close>

theorem byte_framing:
  "lcd_send_command h b w =
     map_option (emit (GpioPut (rs_pin h) False # transfers h b))
       (if rw_pin h \<noteq> 255 then wait_while_busy h w else Some w) \<and>
   lcd_send_data h b w =
     map_option (emit (GpioPut (rs_pin h) True # transfers h b))
       (if rw_pin h \<noteq> 255 then wait_while_busy h w else Some w) \<and>
   (displayfunction h AND LCD_8BITMODE \<noteq> 0 \<longrightarrow>
      transfers h b =
        bus_write h [bit b 0, bit b 1, bit b 2, bit b 3, bit b 4, bit b 5, bit b 6, bit b 7]) \<and>
   (displayfunction h AND LCD_8BITMODE = 0 \<longrightarrow>
      transfers h b =
        bus_write h [bit b 4, bit b 5, bit b 6, bit b 7]
        @ bus_write h [bit b 0, bit b 1, bit b 2, bit b 3])"
  by (simp add: send_command_events send_data_events transfers_def bits_of_8
      bits_of_low_nibble bits_of_high_nibble_list)

theorem byte_framing_witness:
  "displayfunction (handle_4bit 255) AND LCD_8BITMODE = 0 \<and>
   lcd_send_command (handle_4bit 255) 0xC5 idle_world =
     Some (emit
       [GpioPut 6 False,
        GpioPut 4 True, SleepUs 1,
        GpioPut 0 False, GpioPut 1 False, GpioPut 2 True, GpioPut 3 True,
        SleepUs 1, GpioPut 4 False, SleepUs 100,
        GpioPut 4 True, SleepUs 1,
        GpioPut 0 True, GpioPut 1 False, GpioPut 2 True, GpioPut 3 False,
        SleepUs 1, GpioPut 4 False, SleepUs 100] idle_world) \<and>
   displayfunction (handle_8bit 255) AND LCD_8BITMODE \<noteq> 0 \<and>
   lcd_send_data (handle_8bit 255) 0xC5 idle_world =
     Some (emit
       [GpioPut 10 True,
        GpioPut 8 True, SleepUs 1,
        GpioPut 0 True, GpioPut 1 False, GpioPut 2 True, GpioPut 3 False,
        GpioPut 4 False, GpioPut 5 False, GpioPut 6 True, GpioPut 7 True,
        SleepUs 1, GpioPut 8 False, SleepUs 100] idle_world)"
  using byte_framing [of "handle_4bit 255" "0xC5" idle_world]
    byte_framing [of "handle_8bit 255" "0xC5" idle_world]
  by (simp add: handle_4bit_def handle_8bit_def bus_write_def upt_0_4 upt_0_8)

section \<open>Busy flag and settle delay\<close>

text \<open>
  C3. With the Read/Write line wired, every poll of the busy loop is a read of the
  command register: Register-Select low, the data lines switched to input, Read/Write
  high, Enable high, one \<open>gpio_get\<close> per data line, Enable low; in 4-bit mode two such
  reads of four lines, the first carrying bits 4 to 7. Bit \<open>j\<close> of the value read is the
  sample at position \<open>sample_index h j\<close>, so the busy flag is the level of data line 7
  in 8-bit mode and of the fourth data line during the first read in 4-bit mode.
  \<open>_lcd_send_command\<close> and \<open>_lcd_send_data\<close> return exactly when some poll reads the
  busy flag clear after \<open>n\<close> polls that read it set; the calls made are then those \<open>n\<close>
  polls, each followed by \<open>sleep_us(3)\<close>, the poll that reads the flag clear, and only
  then Register-Select and the transfers of the byte. With the Read/Write line not wired
  they return at once, nothing is read (no \<open>gpio_get\<close> at all), and every write transfer
  ends with Enable low followed by a delay of 100 microseconds.
\<close>

theorem busy_flag_protocol:
  "(rw_pin h \<noteq> 255 \<longrightarrow>
      snd (lcd_read_command h w) = took (poll h w 0) 8 w \<and>
      (\<forall>j. bit (fst (lcd_read_command h w)) j \<longleftrightarrow>
            j < 8 \<and> pins_in w (nreads w + sample_index h j)) \<and>
      fst (lcd_busy h w) = busy_sample h w 0 \<and>
      (lcd_send_command h b w = Some w' \<longleftrightarrow>
         (\<exists>n. (\<forall>k<n. busy_sample h w k) \<and> \<not> busy_sample h w n \<and>
              w' = took (polling h w n @ GpioPut (rs_pin h) False # transfers h b)
                     (8 * Suc n) w)) \<and>
      (lcd_send_data h b w = Some w' \<longleftrightarrow>
         (\<exists>n. (\<forall>k<n. busy_sample h w k) \<and> \<not> busy_sample h w n \<and>
              w' = took (polling h w n @ GpioPut (rs_pin h) True # transfers h b)
                     (8 * Suc n) w)) \<and>
      polling h w m = concat (map (\<lambda>k. poll h w k @ [SleepUs 3]) [0..<m]) @ poll h w m \<and>
      (displayfunction h AND LCD_8BITMODE \<noteq> 0 \<longrightarrow>
         busy_sample h w k = pins_in w (nreads w + 8 * k + 7) \<and>
         poll h w k =
           [GpioPut (rs_pin h) False,
            GpioSetDirInMasked (data_pins_mask h), GpioPut (rw_pin h) True, SleepUs 1,
            GpioPut (enable_pin h) True, SleepUs 1,
            GpioGet (data_pins h ! 0) (pins_in w (nreads w + 8 * k + 0)),
            GpioGet (data_pins h ! 1) (pins_in w (nreads w + 8 * k + 1)),
            GpioGet (data_pins h ! 2) (pins_in w (nreads w + 8 * k + 2)),
            GpioGet (data_pins h ! 3) (pins_in w (nreads w + 8 * k + 3)),
            GpioGet (data_pins h ! 4) (pins_in w (nreads w + 8 * k + 4)),
            GpioGet (data_pins h ! 5) (pins_in w (nreads w + 8 * k + 5)),
            GpioGet (data_pins h ! 6) (pins_in w (nreads w + 8 * k + 6)),
            GpioGet (data_pins h ! 7) (pins_in w (nreads w + 8 * k + 7)),
            GpioPut (enable_pin h) False, SleepUs 1]) \<and>
      (displayfunction h AND LCD_8BITMODE = 0 \<longrightarrow>
         busy_sample h w k = pins_in w (nreads w + 8 * k + 3) \<and>
         poll h w k =
           [GpioPut (rs_pin h) False,
            GpioSetDirInMasked (data_pins_mask h), GpioPut (rw_pin h) True, SleepUs 1,
            GpioPut (enable_pin h) True, SleepUs 1,
            GpioGet (data_pins h ! 0) (pins_in w (nreads w + 8 * k + 0)),
            GpioGet (data_pins h ! 1) (pins_in w (nreads w + 8 * k + 1)),
            GpioGet (data_pins h ! 2) (pins_in w (nreads w + 8 * k + 2)),
            GpioGet (data_pins h ! 3) (pins_in w (nreads w + 8 * k + 3)),
            GpioPut (enable_pin h) False, SleepUs 1,
            GpioSetDirInMasked (data_pins_mask h), GpioPut (rw_pin h) True, SleepUs 1,
            GpioPut (enable_pin h) True, SleepUs 1,
            GpioGet (data_pins h ! 0) (pins_in w (nreads w + 8 * k + 4)),
            GpioGet (data_pins h ! 1) (pins_in w (nreads w + 8 * k + 5)),
            GpioGet (data_pins h ! 2) (pins_in w (nreads w + 8 * k + 6)),
            GpioGet (data_pins h ! 3) (pins_in w (nreads w + 8 * k + 7)),
            GpioPut (enable_pin h) False, SleepUs 1])) \<and>
   (rw_pin h = 255 \<longrightarrow>
      lcd_send_command h b w = Some (emit (GpioPut (rs_pin h) False # transfers h b) w) \<and>
      lcd_send_data h b w = Some (emit (GpioPut (rs_pin h) True # transfers h b) w) \<and>
      (\<forall>p v. GpioGet p v \<notin> set (transfers h b)) \<and>
      lcd_write_8_bits h b w = emit (bus_write h (bits_of b 0 8)) w \<and>
      lcd_write_4_bits h b w = emit (bus_write h (bits_of b 0 4)) w \<and>
      (\<forall>levels. \<exists>es. bus_write h levels = es @ [GpioPut (enable_pin h) False, SleepUs 100]))"
proof -
  have wired_part:
    "snd (lcd_read_command h w) = took (poll h w 0) 8 w"
    "\<forall>j. bit (fst (lcd_read_command h w)) j \<longleftrightarrow>
            j < 8 \<and> pins_in w (nreads w + sample_index h j)"
    "fst (lcd_busy h w) = busy_sample h w 0"
    "lcd_send_command h b w = Some w' \<longleftrightarrow>
         (\<exists>n. (\<forall>k<n. busy_sample h w k) \<and> \<not> busy_sample h w n \<and>
              w' = took (polling h w n @ GpioPut (rs_pin h) False # transfers h b)
                     (8 * Suc n) w)"
    "lcd_send_data h b w = Some w' \<longleftrightarrow>
         (\<exists>n. (\<forall>k<n. busy_sample h w k) \<and> \<not> busy_sample h w n \<and>
              w' = took (polling h w n @ GpioPut (rs_pin h) True # transfers h b)
                     (8 * Suc n) w)"
    if wired: "rw_pin h \<noteq> 255"
  proof -
    show "snd (lcd_read_command h w) = took (poll h w 0) 8 w"
      using wired by (rule read_command_poll(1))
    show "\<forall>j. bit (fst (lcd_read_command h w)) j \<longleftrightarrow>
            j < 8 \<and> pins_in w (nreads w + sample_index h j)"
      using read_command_poll(2) [OF wired] by blast
    show "fst (lcd_busy h w) = busy_sample h w 0"
      using busy_sample_spin [OF wired, of 0 w] by (simp add: lcd_busy_fst)
    show "lcd_send_command h b w = Some w' \<longleftrightarrow>
         (\<exists>n. (\<forall>k<n. busy_sample h w k) \<and> \<not> busy_sample h w n \<and>
              w' = took (polling h w n @ GpioPut (rs_pin h) False # transfers h b)
                     (8 * Suc n) w)"
      using wired by (rule send_command_polls)
    show "lcd_send_data h b w = Some w' \<longleftrightarrow>
         (\<exists>n. (\<forall>k<n. busy_sample h w k) \<and> \<not> busy_sample h w n \<and>
              w' = took (polling h w n @ GpioPut (rs_pin h) True # transfers h b)
                     (8 * Suc n) w)"
      using wired by (rule send_data_polls)
  qed
  have s8: "busy_sample h w k = pins_in w (nreads w + 8 * k + 7)"
    if "displayfunction h AND LCD_8BITMODE \<noteq> 0"
    using that by (simp add: busy_sample_def sample_index_def)
  have s4: "busy_sample h w k = pins_in w (nreads w + 8 * k + 3)"
    if "displayfunction h AND LCD_8BITMODE = 0"
    using that by (simp add: busy_sample_def sample_index_def)
  have unwired_part:
    "lcd_send_command h b w = Some (emit (GpioPut (rs_pin h) False # transfers h b) w)"
    "lcd_send_data h b w = Some (emit (GpioPut (rs_pin h) True # transfers h b) w)"
    "\<forall>levels. \<exists>es. bus_write h levels = es @ [GpioPut (enable_pin h) False, SleepUs 100]"
    if unwired: "rw_pin h = 255"
  proof -
    show "lcd_send_command h b w = Some (emit (GpioPut (rs_pin h) False # transfers h b) w)"
      using unwired by (simp add: send_command_events)
    show "lcd_send_data h b w = Some (emit (GpioPut (rs_pin h) True # transfers h b) w)"
      using unwired by (simp add: send_data_events)
    show "\<forall>levels. \<exists>es. bus_write h levels = es @ [GpioPut (enable_pin h) False, SleepUs 100]"
      using bus_write_settle [OF unwired] by blast
  qed
  have no_read: "\<forall>p v. GpioGet p v \<notin> set (transfers h b)"
    by (simp add: transfers_no_read)
  from wired_part s8 s4 poll_8bit [of h w k] poll_4bit [of h w k] unwired_part no_read
    lcd_write_8_bits_events [of h b w] lcd_write_4_bits_events [of h b w] polling_def [of h w m]
  show ?thesis
    by blast
qed

theorem busy_flag_protocol_witness:
  "rw_pin (handle_8bit 9) \<noteq> 255 \<and>
   displayfunction (handle_8bit 9) AND LCD_8BITMODE \<noteq> 0 \<and>
   busy_sample (handle_8bit 9) busy_world 0 \<and>
   busy_sample (handle_8bit 9) busy_world 1 \<and>
   \<not> busy_sample (handle_8bit 9) busy_world 2 \<and>
   lcd_send_command (handle_8bit 9) 0x01 busy_world =
     Some (took
       [GpioPut 10 False, GpioSetDirInMasked 0xFF, GpioPut 9 True, SleepUs 1,
        GpioPut 8 True, SleepUs 1, GpioGet 0 False, GpioGet 1 False,
        GpioGet 2 False, GpioGet 3 False, GpioGet 4 False, GpioGet 5 False,
        GpioGet 6 False, GpioGet 7 True, GpioPut 8 False, SleepUs 1,
        SleepUs 3, GpioPut 10 False, GpioSetDirInMasked 0xFF, GpioPut 9 True,
        SleepUs 1, GpioPut 8 True, SleepUs 1, GpioGet 0 False,
        GpioGet 1 False, GpioGet 2 False, GpioGet 3 False, GpioGet 4 False,
        GpioGet 5 False, GpioGet 6 False, GpioGet 7 True, GpioPut 8 False,
        SleepUs 1, SleepUs 3, GpioPut 10 False, GpioSetDirInMasked 0xFF,
        GpioPut 9 True, SleepUs 1, GpioPut 8 True, SleepUs 1,
        GpioGet 0 False, GpioGet 1 False, GpioGet 2 False, GpioGet 3 False,
        GpioGet 4 False, GpioGet 5 False, GpioGet 6 False, GpioGet 7 False,
        GpioPut 8 False, SleepUs 1, GpioPut 10 False, GpioPut 9 False,
        SleepUs 1, GpioSetDirOutMasked 0xFF, GpioPut 8 True, SleepUs 1,
        GpioPut 0 True, GpioPut 1 False, GpioPut 2 False, GpioPut 3 False,
        GpioPut 4 False, GpioPut 5 False, GpioPut 6 False, GpioPut 7 False,
        SleepUs 1, GpioPut 8 False, SleepUs 1] 24 busy_world) \<and>
   rw_pin (handle_4bit 5) \<noteq> 255 \<and>
   displayfunction (handle_4bit 5) AND LCD_8BITMODE = 0 \<and>
   busy_sample (handle_4bit 5) busy_once_world 0 \<and>
   \<not> busy_sample (handle_4bit 5) busy_once_world 1 \<and>
   lcd_send_data (handle_4bit 5) 0x41 busy_once_world =
     Some (took
       [GpioPut 6 False, GpioSetDirInMasked 0xF, GpioPut 5 True, SleepUs 1,
        GpioPut 4 True, SleepUs 1, GpioGet 0 False, GpioGet 1 False,
        GpioGet 2 False, GpioGet 3 True, GpioPut 4 False, SleepUs 1,
        GpioSetDirInMasked 0xF, GpioPut 5 True, SleepUs 1, GpioPut 4 True,
        SleepUs 1, GpioGet 0 False, GpioGet 1 False, GpioGet 2 False,
        GpioGet 3 False, GpioPut 4 False, SleepUs 1, SleepUs 3,
        GpioPut 6 False, GpioSetDirInMasked 0xF, GpioPut 5 True, SleepUs 1,
        GpioPut 4 True, SleepUs 1, GpioGet 0 False, GpioGet 1 False,
        GpioGet 2 False, GpioGet 3 False, GpioPut 4 False, SleepUs 1,
        GpioSetDirInMasked 0xF, GpioPut 5 True, SleepUs 1, GpioPut 4 True,
        SleepUs 1, GpioGet 0 False, GpioGet 1 False, GpioGet 2 False,
        GpioGet 3 False, GpioPut 4 False, SleepUs 1, GpioPut 6 True,
        GpioPut 5 False, SleepUs 1, GpioSetDirOutMasked 0xF, GpioPut 4 True,
        SleepUs 1, GpioPut 0 False, GpioPut 1 False, GpioPut 2 True,
        GpioPut 3 False, SleepUs 1, GpioPut 4 False, SleepUs 1,
        GpioPut 5 False, SleepUs 1, GpioSetDirOutMasked 0xF, GpioPut 4 True,
        SleepUs 1, GpioPut 0 True, GpioPut 1 False, GpioPut 2 False,
        GpioPut 3 False, SleepUs 1, GpioPut 4 False, SleepUs 1] 16 busy_once_world) \<and>
   rw_pin (handle_4bit 255) = 255 \<and>
   lcd_send_data (handle_4bit 255) 0x41 idle_world =
     Some (emit
       [GpioPut 6 True,
        GpioPut 4 True, SleepUs 1,
        GpioPut 0 False, GpioPut 1 False, GpioPut 2 True, GpioPut 3 False,
        SleepUs 1, GpioPut 4 False, SleepUs 100,
        GpioPut 4 True, SleepUs 1,
        GpioPut 0 True, GpioPut 1 False, GpioPut 2 False, GpioPut 3 False,
        SleepUs 1, GpioPut 4 False, SleepUs 100] idle_world)"
proof -
  let ?h8 = "handle_8bit 9" and ?h4 = "handle_4bit 5"
  have wired8: "rw_pin ?h8 \<noteq> 255" and mode8: "displayfunction ?h8 AND LCD_8BITMODE \<noteq> 0"
    and wired4: "rw_pin ?h4 \<noteq> 255" and mode4: "displayfunction ?h4 AND LCD_8BITMODE = 0"
    by (simp_all add: example_fields)
  note t8 = busy_flag_protocol [where h = ?h8 and w = busy_world and b = "0x01"]
  note t4 = busy_flag_protocol [where h = ?h4 and w = busy_once_world and b = "0x41"]
  have s8: "busy_sample ?h8 busy_world k \<longleftrightarrow> k < 2" for k
  proof -
    have "busy_sample ?h8 busy_world k = pins_in busy_world (nreads busy_world + 8 * k + 7)"
      using t8 [where k = k] wired8 mode8 by blast
    then show ?thesis
      by (auto simp add: busy_world_def)
  qed
  have s4: "busy_sample ?h4 busy_once_world k \<longleftrightarrow> k < 1" for k
  proof -
    have "busy_sample ?h4 busy_once_world k =
        pins_in busy_once_world (nreads busy_once_world + 8 * k + 3)"
      using t4 [where k = k] wired4 mode4 by blast
    then show ?thesis
      by (auto simp add: busy_once_world_def)
  qed
  have p8: "poll ?h8 busy_world k =
      [GpioPut 10 False, GpioSetDirInMasked 0xFF, GpioPut 9 True, SleepUs 1,
       GpioPut 8 True, SleepUs 1,
       GpioGet 0 False, GpioGet 1 False, GpioGet 2 False, GpioGet 3 False,
       GpioGet 4 False, GpioGet 5 False, GpioGet 6 False, GpioGet 7 (k < 2),
       GpioPut 8 False, SleepUs 1]" for k
    unfolding poll_8bit [OF mode8]
    by (auto simp add: handle_8bit_def busy_world_def; presburger)
  have p4: "poll ?h4 busy_once_world k =
      [GpioPut 6 False, GpioSetDirInMasked 0xF, GpioPut 5 True, SleepUs 1,
       GpioPut 4 True, SleepUs 1,
       GpioGet 0 False, GpioGet 1 False, GpioGet 2 False, GpioGet 3 (k < 1),
       GpioPut 4 False, SleepUs 1,
       GpioSetDirInMasked 0xF, GpioPut 5 True, SleepUs 1,
       GpioPut 4 True, SleepUs 1,
       GpioGet 0 False, GpioGet 1 False, GpioGet 2 False, GpioGet 3 False,
       GpioPut 4 False, SleepUs 1]" for k
    unfolding poll_4bit [OF mode4]
    by (auto simp add: handle_4bit_def busy_once_world_def; presburger)
  have w8: "transfers ?h8 0x01 =
      [GpioPut 9 False, SleepUs 1, GpioSetDirOutMasked 0xFF, GpioPut 8 True, SleepUs 1,
       GpioPut 0 True, GpioPut 1 False, GpioPut 2 False, GpioPut 3 False,
       GpioPut 4 False, GpioPut 5 False, GpioPut 6 False, GpioPut 7 False,
       SleepUs 1, GpioPut 8 False, SleepUs 1]"
    by (simp add: transfers_def handle_8bit_def bus_write_def bits_of_8 upt_0_8)
  have w4: "transfers ?h4 0x41 =
      [GpioPut 5 False, SleepUs 1, GpioSetDirOutMasked 0xF, GpioPut 4 True, SleepUs 1,
       GpioPut 0 False, GpioPut 1 False, GpioPut 2 True, GpioPut 3 False,
       SleepUs 1, GpioPut 4 False, SleepUs 1,
       GpioPut 5 False, SleepUs 1, GpioSetDirOutMasked 0xF, GpioPut 4 True, SleepUs 1,
       GpioPut 0 True, GpioPut 1 False, GpioPut 2 False, GpioPut 3 False,
       SleepUs 1, GpioPut 4 False, SleepUs 1]"
    by (simp add: transfers_def handle_4bit_def bus_write_def bits_of_low_nibble
        bits_of_high_nibble_list upt_0_4)
  have pl8: "polling ?h8 busy_world 2 =
      poll ?h8 busy_world 0 @ [SleepUs 3] @ poll ?h8 busy_world 1 @ [SleepUs 3]
      @ poll ?h8 busy_world 2"
    using t8 [where m = 2] wired8 by (simp add: upt_rec numeral_2_eq_2)
  have pl4: "polling ?h4 busy_once_world 1 =
      poll ?h4 busy_once_world 0 @ [SleepUs 3] @ poll ?h4 busy_once_world 1"
    using t4 [where m = 1] wired4 by (simp add: upt_rec)
  have "\<exists>n. (\<forall>k<n. busy_sample ?h8 busy_world k) \<and> \<not> busy_sample ?h8 busy_world n \<and>
      took (polling ?h8 busy_world 2 @ GpioPut (rs_pin ?h8) False # transfers ?h8 0x01)
        (8 * Suc 2) busy_world =
      took (polling ?h8 busy_world n @ GpioPut (rs_pin ?h8) False # transfers ?h8 0x01)
        (8 * Suc n) busy_world"
    by (rule exI [of _ 2]) (simp add: s8)
  with t8 [where w' = "took (polling ?h8 busy_world 2 @ GpioPut (rs_pin ?h8) False
      # transfers ?h8 0x01) (8 * Suc 2) busy_world"] wired8
  have "lcd_send_command ?h8 0x01 busy_world =
      Some (took (polling ?h8 busy_world 2 @ GpioPut (rs_pin ?h8) False # transfers ?h8 0x01)
        (8 * Suc 2) busy_world)"
    by blast
  then have r8: "lcd_send_command ?h8 0x01 busy_world = Some (took
       [GpioPut 10 False, GpioSetDirInMasked 0xFF, GpioPut 9 True, SleepUs 1,
        GpioPut 8 True, SleepUs 1, GpioGet 0 False, GpioGet 1 False,
        GpioGet 2 False, GpioGet 3 False, GpioGet 4 False, GpioGet 5 False,
        GpioGet 6 False, GpioGet 7 True, GpioPut 8 False, SleepUs 1,
        SleepUs 3, GpioPut 10 False, GpioSetDirInMasked 0xFF, GpioPut 9 True,
        SleepUs 1, GpioPut 8 True, SleepUs 1, GpioGet 0 False,
        GpioGet 1 False, GpioGet 2 False, GpioGet 3 False, GpioGet 4 False,
        GpioGet 5 False, GpioGet 6 False, GpioGet 7 True, GpioPut 8 False,
        SleepUs 1, SleepUs 3, GpioPut 10 False, GpioSetDirInMasked 0xFF,
        GpioPut 9 True, SleepUs 1, GpioPut 8 True, SleepUs 1,
        GpioGet 0 False, GpioGet 1 False, GpioGet 2 False, GpioGet 3 False,
        GpioGet 4 False, GpioGet 5 False, GpioGet 6 False, GpioGet 7 False,
        GpioPut 8 False, SleepUs 1, GpioPut 10 False, GpioPut 9 False,
        SleepUs 1, GpioSetDirOutMasked 0xFF, GpioPut 8 True, SleepUs 1,
        GpioPut 0 True, GpioPut 1 False, GpioPut 2 False, GpioPut 3 False,
        GpioPut 4 False, GpioPut 5 False, GpioPut 6 False, GpioPut 7 False,
        SleepUs 1, GpioPut 8 False, SleepUs 1] 24 busy_world)"
    unfolding pl8 p8 w8 by (simp add: handle_8bit_def)
  have "\<exists>n. (\<forall>k<n. busy_sample ?h4 busy_once_world k) \<and> \<not> busy_sample ?h4 busy_once_world n \<and>
      took (polling ?h4 busy_once_world 1 @ GpioPut (rs_pin ?h4) True # transfers ?h4 0x41)
        (8 * Suc 1) busy_once_world =
      took (polling ?h4 busy_once_world n @ GpioPut (rs_pin ?h4) True # transfers ?h4 0x41)
        (8 * Suc n) busy_once_world"
    by (rule exI [of _ 1]) (simp add: s4)
  with t4 [where w' = "took (polling ?h4 busy_once_world 1 @ GpioPut (rs_pin ?h4) True
      # transfers ?h4 0x41) (8 * Suc 1) busy_once_world"] wired4
  have "lcd_send_data ?h4 0x41 busy_once_world =
      Some (took (polling ?h4 busy_once_world 1 @ GpioPut (rs_pin ?h4) True # transfers ?h4 0x41)
        (8 * Suc 1) busy_once_world)"
    by blast
  then have r4: "lcd_send_data ?h4 0x41 busy_once_world = Some (took
       [GpioPut 6 False, GpioSetDirInMasked 0xF, GpioPut 5 True, SleepUs 1,
        GpioPut 4 True, SleepUs 1, GpioGet 0 False, GpioGet 1 False,
        GpioGet 2 False, GpioGet 3 True, GpioPut 4 False, SleepUs 1,
        GpioSetDirInMasked 0xF, GpioPut 5 True, SleepUs 1, GpioPut 4 True,
        SleepUs 1, GpioGet 0 False, GpioGet 1 False, GpioGet 2 False,
        GpioGet 3 False, GpioPut 4 False, SleepUs 1, SleepUs 3,
        GpioPut 6 False, GpioSetDirInMasked 0xF, GpioPut 5 True, SleepUs 1,
        GpioPut 4 True, SleepUs 1, GpioGet 0 False, GpioGet 1 False,
        GpioGet 2 False, GpioGet 3 False, GpioPut 4 False, SleepUs 1,
        GpioSetDirInMasked 0xF, GpioPut 5 True, SleepUs 1, GpioPut 4 True,
        SleepUs 1, GpioGet 0 False, GpioGet 1 False, GpioGet 2 False,
        GpioGet 3 False, GpioPut 4 False, SleepUs 1, GpioPut 6 True,
        GpioPut 5 False, SleepUs 1, GpioSetDirOutMasked 0xF, GpioPut 4 True,
        SleepUs 1, GpioPut 0 False, GpioPut 1 False, GpioPut 2 True,
        GpioPut 3 False, SleepUs 1, GpioPut 4 False, SleepUs 1,
        GpioPut 5 False, SleepUs 1, GpioSetDirOutMasked 0xF, GpioPut 4 True,
        SleepUs 1, GpioPut 0 True, GpioPut 1 False, GpioPut 2 False,
        GpioPut 3 False, SleepUs 1, GpioPut 4 False, SleepUs 1] 16 busy_once_world)"
    unfolding pl4 p4 w4 by (simp add: handle_4bit_def)
  have unwired: "rw_pin (handle_4bit 255) = 255"
    by (simp add: example_fields)
  have "lcd_send_data (handle_4bit 255) 0x41 idle_world =
          Some (emit (GpioPut (rs_pin (handle_4bit 255)) True # transfers (handle_4bit 255) 0x41)
                 idle_world)"
    using busy_flag_protocol [where h = "handle_4bit 255" and b = "0x41" and w = idle_world]
      unwired by blast
  then have r0: "lcd_send_data (handle_4bit 255) 0x41 idle_world =
     Some (emit
       [GpioPut 6 True,
        GpioPut 4 True, SleepUs 1,
        GpioPut 0 False, GpioPut 1 False, GpioPut 2 True, GpioPut 3 False,
        SleepUs 1, GpioPut 4 False, SleepUs 100,
        GpioPut 4 True, SleepUs 1,
        GpioPut 0 True, GpioPut 1 False, GpioPut 2 False, GpioPut 3 False,
        SleepUs 1, GpioPut 4 False, SleepUs 100] idle_world)"
    by (simp add: handle_4bit_def transfers_def bus_write_def bits_of_low_nibble
        bits_of_high_nibble_list upt_0_4)
  from wired8 mode8 s8 [of 0] s8 [of 1] s8 [of 2] r8 wired4 mode4 s4 [of 0] s4 [of 1] r4 unwired r0
  show ?thesis
    by simp
qed

section \<open>Reads without a Read/Write line\<close>

text \<open>
  C8. On a handle whose Read/Write line is not wired (\<open>rw_pin = 255\<close>) the 8-bit read
  returns 255 and the 4-bit read returns 15, and the world is left as it was: no call into
  GPIO or sleeping is made, so Enable is not pulsed and no pin changes. On a handle whose
  Read/Write line is wired the value returned is the sampled one: bit \<open>j\<close> of the result is
  the level sampled on data line \<open>j\<close>, and the read is the bus transfer \<open>bus_read\<close>.
\<close>

theorem read_without_rw_line:
  "(rw_pin h = 255 \<longrightarrow> lcd_read_8_bits h w = (255, w) \<and> lcd_read_4_bits h w = (15, w)) \<and>
   (rw_pin h \<noteq> 255 \<longrightarrow>
      (\<forall>j. bit (fst (lcd_read_8_bits h w)) j \<longleftrightarrow> j < 8 \<and> pins_in w (nreads w + j)) \<and>
      snd (lcd_read_8_bits h w) = took (bus_read h 8 w) 8 w \<and>
      (\<forall>j. bit (fst (lcd_read_4_bits h w)) j \<longleftrightarrow> j < 4 \<and> pins_in w (nreads w + j)) \<and>
      snd (lcd_read_4_bits h w) = took (bus_read h 4 w) 4 w)"
  using lcd_read_8_bits_wired [of h w] lcd_read_4_bits_wired [of h w]
  by (simp add: lcd_read_8_bits_def lcd_read_4_bits_def)

theorem read_without_rw_line_witness:
  "rw_pin (handle_8bit 255) = 255 \<and>
   lcd_read_8_bits (handle_8bit 255) busy_world = (255, busy_world) \<and>
   lcd_read_4_bits (handle_8bit 255) busy_world = (15, busy_world) \<and>
   rw_pin (handle_8bit 9) \<noteq> 255 \<and>
   bit (fst (lcd_read_8_bits (handle_8bit 9) busy_world)) 7 \<and>
   \<not> bit (fst (lcd_read_8_bits (handle_8bit 9) busy_world)) 6 \<and>
   \<not> bit (fst (lcd_read_4_bits (handle_8bit 9) busy_world)) 7 \<and>
   events (snd (lcd_read_4_bits (handle_8bit 9) busy_world)) =
     [GpioSetDirInMasked 0xFF, GpioPut 9 True, SleepUs 1, GpioPut 8 True, SleepUs 1,
      GpioGet 0 False, GpioGet 1 False, GpioGet 2 False, GpioGet 3 False,
      GpioPut 8 False, SleepUs 1]"
  using read_without_rw_line [of "handle_8bit 255" busy_world]
    read_without_rw_line [of "handle_8bit 9" busy_world]
  by (simp add: handle_8bit_def busy_world_def bus_read_def upt_0_4)

section \<open>Initialization handshake\<close>

text \<open>
  C2. An initialization that gets its memory waits 50 ms, configures the pins, performs
  the handshake and only then sends, through the command/data channel and in this order,
  the function-set command (8-bit flag, two-line flag for more than one row, 5x10 flag
  for a non-5x8 character size on one row), the display-control command with display on,
  cursor off and blink off (0x0C), the entry-mode command with left-to-right and no
  autoscroll (0x06), and clear and home. The handshake is: in 8-bit mode exactly three
  8-bit writes of the function-set byte, each followed by a 5 ms delay; in 4-bit mode
  exactly three 4-bit writes of 0x3 (data lines 0 and 1 high) and then one of 0x2 (data
  line 1 high), each followed by a 5 ms delay. The last conjunct is the same statement
  for \<open>_lcd_setup\<close> on any handle.
\<close>

theorem init_handshake:
  "lcd_init cols rows charsize rs rw enable d0 d1 d2 d3 d4 d5 d6 d7 eightbitmode w =
     (case malloc_result w of None \<Rightarrow> Some (None, w)
      | Some block \<Rightarrow>
          let h = initial_handle cols rows charsize rs rw enable d0 d1 d2 d3 d4 d5 d6 d7 eightbitmode
          in map_option (Pair (Some h))
               (run_bus h
                  [Command (LCD_FUNCTIONSET OR displayfunction h),
                   Command (LCD_DISPLAYCONTROL OR LCD_DISPLAYON),
                   Command (LCD_ENTRYMODESET OR LCD_ENTRYLEFT),
                   Command LCD_CLEARDISPLAY, DelayMs 5,
                   Command LCD_RETURNHOME, DelayMs 5]
                  (emit (SleepMs 50 # pin_setup h @ handshake h) w))) \<and>
   (let h = initial_handle cols rows charsize rs rw enable d0 d1 d2 d3 d4 d5 d6 d7 eightbitmode;
        function_set = [False, False, charsize \<noteq> LCD_5x8DOTS \<and> rows = 1, rows > 1,
                        True, True, False, False]
    in displayfunction h =
         (if eightbitmode then LCD_8BITMODE else LCD_4BITMODE)
         OR (if rows > 1 then LCD_2LINE else 0)
         OR (if charsize \<noteq> LCD_5x8DOTS \<and> rows = 1 then LCD_5x10DOTS else 0) \<and>
       handshake h =
         (if eightbitmode
          then bus_write h function_set @ [SleepMs 5]
               @ bus_write h function_set @ [SleepMs 5]
               @ bus_write h function_set @ [SleepMs 5]
          else bus_write h [True, True, False, False] @ [SleepMs 5]
               @ bus_write h [True, True, False, False] @ [SleepMs 5]
               @ bus_write h [True, True, False, False] @ [SleepMs 5]
               @ bus_write h [False, True, False, False] @ [SleepMs 5])) \<and>
   lcd_setup h0 cols rows charsize w =
     (let h' = h0\<lparr>displayfunction := setup_function (displayfunction h0) rows charsize,
                  displaycontrol := LCD_DISPLAYON, displaymode := LCD_ENTRYLEFT,
                  numlines := rows, row_offsets := [0x00, 0x40, 0x00 + cols, 0x40 + cols]\<rparr>
      in map_option (Pair h')
           (run_bus h'
              [Command (LCD_FUNCTIONSET OR displayfunction h'),
               Command (LCD_DISPLAYCONTROL OR LCD_DISPLAYON),
               Command (LCD_ENTRYMODESET OR LCD_ENTRYLEFT)]
              (emit (handshake h') w)))"
proof (intro conjI)
  show "lcd_init cols rows charsize rs rw enable d0 d1 d2 d3 d4 d5 d6 d7 eightbitmode w =
     (case malloc_result w of None \<Rightarrow> Some (None, w)
      | Some block \<Rightarrow>
          let h = initial_handle cols rows charsize rs rw enable d0 d1 d2 d3 d4 d5 d6 d7 eightbitmode
          in map_option (Pair (Some h))
               (run_bus h
                  [Command (LCD_FUNCTIONSET OR displayfunction h),
                   Command (LCD_DISPLAYCONTROL OR LCD_DISPLAYON),
                   Command (LCD_ENTRYMODESET OR LCD_ENTRYLEFT),
                   Command LCD_CLEARDISPLAY, DelayMs 5,
                   Command LCD_RETURNHOME, DelayMs 5]
                  (emit (SleepMs 50 # pin_setup h @ handshake h) w)))"
    by (rule lcd_init_run)
next
  have fs: "bits_of (LCD_FUNCTIONSET OR (LCD_8BITMODE OR (if 1 < rows then LCD_2LINE else 0)
      OR (if charsize \<noteq> LCD_5x8DOTS \<and> rows = 1 then LCD_5x10DOTS else 0))) 0 8 =
     [False, False, charsize \<noteq> LCD_5x8DOTS \<and> rows = 1, 1 < rows, True, True, False, False]"
    by (rule function_set_bits)
  have mode: "(LCD_8BITMODE OR (if 1 < rows then LCD_2LINE else 0)
      OR (if charsize \<noteq> LCD_5x8DOTS \<and> rows = 1 then LCD_5x10DOTS else 0)) AND LCD_8BITMODE \<noteq> 0"
    "(LCD_4BITMODE OR (if 1 < rows then LCD_2LINE else 0)
      OR (if charsize \<noteq> LCD_5x8DOTS \<and> rows = 1 then LCD_5x10DOTS else 0)) AND LCD_8BITMODE = 0"
    by simp_all
  show "let h = initial_handle cols rows charsize rs rw enable d0 d1 d2 d3 d4 d5 d6 d7 eightbitmode;
        function_set = [False, False, charsize \<noteq> LCD_5x8DOTS \<and> rows = 1, rows > 1,
                        True, True, False, False]
    in displayfunction h =
         (if eightbitmode then LCD_8BITMODE else LCD_4BITMODE)
         OR (if rows > 1 then LCD_2LINE else 0)
         OR (if charsize \<noteq> LCD_5x8DOTS \<and> rows = 1 then LCD_5x10DOTS else 0) \<and>
       handshake h =
         (if eightbitmode
          then bus_write h function_set @ [SleepMs 5]
               @ bus_write h function_set @ [SleepMs 5]
               @ bus_write h function_set @ [SleepMs 5]
          else bus_write h [True, True, False, False] @ [SleepMs 5]
               @ bus_write h [True, True, False, False] @ [SleepMs 5]
               @ bus_write h [True, True, False, False] @ [SleepMs 5]
               @ bus_write h [False, True, False, False] @ [SleepMs 5])"
    unfolding Let_def handshake_def initial_handle_def setup_function_def
    using fs mode by (cases eightbitmode) (simp_all del: LCD_8BITMODE_def LCD_4BITMODE_def
        LCD_2LINE_def LCD_5x10DOTS_def LCD_FUNCTIONSET_def LCD_5x8DOTS_def)
next
  show "lcd_setup h0 cols rows charsize w =
     (let h' = h0\<lparr>displayfunction := setup_function (displayfunction h0) rows charsize,
                  displaycontrol := LCD_DISPLAYON, displaymode := LCD_ENTRYLEFT,
                  numlines := rows, row_offsets := [0x00, 0x40, 0x00 + cols, 0x40 + cols]\<rparr>
      in map_option (Pair h')
           (run_bus h'
              [Command (LCD_FUNCTIONSET OR displayfunction h'),
               Command (LCD_DISPLAYCONTROL OR LCD_DISPLAYON),
               Command (LCD_ENTRYMODESET OR LCD_ENTRYLEFT)]
              (emit (handshake h') w)))"
    by (rule lcd_setup_run)
qed

theorem init_handshake_witness:
  "lcd_init_4bit 16 2 LCD_5x8DOTS 6 255 4 0 1 2 3 idle_world =
     Some (Some (handle_4bit 255),
       emit (SleepMs 50 # pin_setup (handle_4bit 255)
          @ [GpioPut 4 True, SleepUs 1,
             GpioPut 0 True, GpioPut 1 True, GpioPut 2 False, GpioPut 3 False,
             SleepUs 1, GpioPut 4 False, SleepUs 100, SleepMs 5,
             GpioPut 4 True, SleepUs 1,
             GpioPut 0 True, GpioPut 1 True, GpioPut 2 False, GpioPut 3 False,
             SleepUs 1, GpioPut 4 False, SleepUs 100, SleepMs 5,
             GpioPut 4 True, SleepUs 1,
             GpioPut 0 True, GpioPut 1 True, GpioPut 2 False, GpioPut 3 False,
             SleepUs 1, GpioPut 4 False, SleepUs 100, SleepMs 5,
             GpioPut 4 True, SleepUs 1,
             GpioPut 0 False, GpioPut 1 True, GpioPut 2 False, GpioPut 3 False,
             SleepUs 1, GpioPut 4 False, SleepUs 100, SleepMs 5]
          @ concat (map (op_events (handle_4bit 255))
              [Command 0x28, Command 0x0C, Command 0x06,
               Command 0x01, DelayMs 5, Command 0x02, DelayMs 5])) idle_world) \<and>
   lcd_init_8bit 16 2 LCD_5x8DOTS 10 255 8 0 1 2 3 4 5 6 7 idle_world =
     Some (Some (handle_8bit 255),
       emit (SleepMs 50 # pin_setup (handle_8bit 255)
          @ [GpioPut 8 True, SleepUs 1,
             GpioPut 0 False, GpioPut 1 False, GpioPut 2 False, GpioPut 3 True,
             GpioPut 4 True, GpioPut 5 True, GpioPut 6 False, GpioPut 7 False,
             SleepUs 1, GpioPut 8 False, SleepUs 100, SleepMs 5,
             GpioPut 8 True, SleepUs 1,
             GpioPut 0 False, GpioPut 1 False, GpioPut 2 False, GpioPut 3 True,
             GpioPut 4 True, GpioPut 5 True, GpioPut 6 False, GpioPut 7 False,
             SleepUs 1, GpioPut 8 False, SleepUs 100, SleepMs 5,
             GpioPut 8 True, SleepUs 1,
             GpioPut 0 False, GpioPut 1 False, GpioPut 2 False, GpioPut 3 True,
             GpioPut 4 True, GpioPut 5 True, GpioPut 6 False, GpioPut 7 False,
             SleepUs 1, GpioPut 8 False, SleepUs 100, SleepMs 5]
          @ concat (map (op_events (handle_8bit 255))
              [Command 0x38, Command 0x0C, Command 0x06,
               Command 0x01, DelayMs 5, Command 0x02, DelayMs 5])) idle_world)"
proof -
  have four: "bus_write (handle_4bit 255) [a, b, c, d] =
      [GpioPut 4 True, SleepUs 1, GpioPut 0 a, GpioPut 1 b, GpioPut 2 c, GpioPut 3 d,
       SleepUs 1, GpioPut 4 False, SleepUs 100]" for a b c d
    by (simp add: bus_write_def handle_4bit_def upt_0_4)
  have eight: "bus_write (handle_8bit 255) [a, b, c, d, e, f, g, k] =
      [GpioPut 8 True, SleepUs 1, GpioPut 0 a, GpioPut 1 b, GpioPut 2 c, GpioPut 3 d,
       GpioPut 4 e, GpioPut 5 f, GpioPut 6 g, GpioPut 7 k,
       SleepUs 1, GpioPut 8 False, SleepUs 100]" for a b c d e f g k
    by (simp add: bus_write_def handle_8bit_def upt_0_8)
  note inst4 = init_handshake [where cols = 16 and rows = 2 and charsize = LCD_5x8DOTS
      and rs = 6 and rw = 255 and enable = 4 and ?d0.0 = 0 and ?d1.0 = 1 and ?d2.0 = 2 and ?d3.0 = 3
      and ?d4.0 = 0 and ?d5.0 = 0 and ?d6.0 = 0 and ?d7.0 = 0 and eightbitmode = False
      and w = idle_world and ?h0.0 = raw_block]
  note inst8 = init_handshake [where cols = 16 and rows = 2 and charsize = LCD_5x8DOTS
      and rs = 10 and rw = 255 and enable = 8 and ?d0.0 = 0 and ?d1.0 = 1 and ?d2.0 = 2 and ?d3.0 = 3
      and ?d4.0 = 4 and ?d5.0 = 5 and ?d6.0 = 6 and ?d7.0 = 7 and eightbitmode = True
      and w = idle_world and ?h0.0 = raw_block]
  have rb4: "run_bus (handle_4bit 255) ops v =
      Some (emit (concat (map (op_events (handle_4bit 255)) ops)) v)" for ops v
    by (rule run_bus_unwired) (simp add: example_fields)
  have rb8: "run_bus (handle_8bit 255) ops v =
      Some (emit (concat (map (op_events (handle_8bit 255)) ops)) v)" for ops v
    by (rule run_bus_unwired) (simp add: example_fields)
  have r4: "lcd_init_4bit 16 2 LCD_5x8DOTS 6 255 4 0 1 2 3 idle_world =
     Some (Some (handle_4bit 255),
       emit (SleepMs 50 # pin_setup (handle_4bit 255) @ handshake (handle_4bit 255)
          @ concat (map (op_events (handle_4bit 255))
              [Command 0x28, Command 0x0C, Command 0x06,
               Command 0x01, DelayMs 5, Command 0x02, DelayMs 5])) idle_world)"
    using inst4 [THEN conjunct1]
    unfolding initial_handle_4bit_example lcd_init_4bit_def Let_def rb4
    by (simp add: example_fields emit_emit)
  have r8: "lcd_init_8bit 16 2 LCD_5x8DOTS 10 255 8 0 1 2 3 4 5 6 7 idle_world =
     Some (Some (handle_8bit 255),
       emit (SleepMs 50 # pin_setup (handle_8bit 255) @ handshake (handle_8bit 255)
          @ concat (map (op_events (handle_8bit 255))
              [Command 0x38, Command 0x0C, Command 0x06,
               Command 0x01, DelayMs 5, Command 0x02, DelayMs 5])) idle_world)"
    using inst8 [THEN conjunct1]
    unfolding initial_handle_8bit_example lcd_init_8bit_def Let_def rb8
    by (simp add: example_fields emit_emit)
  have h4: "handshake (handle_4bit 255) =
      bus_write (handle_4bit 255) [True, True, False, False] @ [SleepMs 5]
      @ bus_write (handle_4bit 255) [True, True, False, False] @ [SleepMs 5]
      @ bus_write (handle_4bit 255) [True, True, False, False] @ [SleepMs 5]
      @ bus_write (handle_4bit 255) [False, True, False, False] @ [SleepMs 5]"
    using inst4 [THEN conjunct2, THEN conjunct1]
    unfolding initial_handle_4bit_example Let_def by simp
  have h8: "handshake (handle_8bit 255) =
      bus_write (handle_8bit 255) [False, False, False, True, True, True, False, False] @ [SleepMs 5]
      @ bus_write (handle_8bit 255) [False, False, False, True, True, True, False, False] @ [SleepMs 5]
      @ bus_write (handle_8bit 255) [False, False, False, True, True, True, False, False] @ [SleepMs 5]"
    using inst8 [THEN conjunct2, THEN conjunct1]
    unfolding initial_handle_8bit_example Let_def by simp
  show ?thesis
    unfolding r4 r8 h4 h8 four eight by simp
qed

section \<open>Flag toggles\<close>

text \<open>
  C6. Each of the ten flag toggles on a non-null handle replaces the cached flag byte
  (\<open>displaycontrol\<close> or \<open>displaymode\<close>) by its previous value with exactly the target
  bit set (\<open>set_bit\<close>) or cleared (\<open>unset_bit\<close>), all other bits and all other fields
  kept, and then sends one command byte: the opcode combined by OR with that whole new
  flag byte. The bits are: display 2, cursor 1, blink 0 of \<open>displaycontrol\<close>; left-to-right
  1, autoscroll 0 of \<open>displaymode\<close>.
\<close>

theorem flag_toggles:
  "lcd_display_off (Some h) w =
     (let h' = h\<lparr>displaycontrol := unset_bit 2 (displaycontrol h)\<rparr>
      in map_option (Pair (Some h')) (lcd_send_command h' (LCD_DISPLAYCONTROL OR displaycontrol h') w)) \<and>
   lcd_display_on (Some h) w =
     (let h' = h\<lparr>displaycontrol := set_bit 2 (displaycontrol h)\<rparr>
      in map_option (Pair (Some h')) (lcd_send_command h' (LCD_DISPLAYCONTROL OR displaycontrol h') w)) \<and>
   lcd_cursor_off (Some h) w =
     (let h' = h\<lparr>displaycontrol := unset_bit 1 (displaycontrol h)\<rparr>
      in map_option (Pair (Some h')) (lcd_send_command h' (LCD_DISPLAYCONTROL OR displaycontrol h') w)) \<and>
   lcd_cursor_on (Some h) w =
     (let h' = h\<lparr>displaycontrol := set_bit 1 (displaycontrol h)\<rparr>
      in map_option (Pair (Some h')) (lcd_send_command h' (LCD_DISPLAYCONTROL OR displaycontrol h') w)) \<and>
   lcd_blink_off (Some h) w =
     (let h' = h\<lparr>displaycontrol := unset_bit 0 (displaycontrol h)\<rparr>
      in map_option (Pair (Some h')) (lcd_send_command h' (LCD_DISPLAYCONTROL OR displaycontrol h') w)) \<and>
   lcd_blink_on (Some h) w =
     (let h' = h\<lparr>displaycontrol := set_bit 0 (displaycontrol h)\<rparr>
      in map_option (Pair (Some h')) (lcd_send_command h' (LCD_DISPLAYCONTROL OR displaycontrol h') w)) \<and>
   lcd_left_to_right (Some h) w =
     (let h' = h\<lparr>displaymode := set_bit 1 (displaymode h)\<rparr>
      in map_option (Pair (Some h')) (lcd_send_command h' (LCD_ENTRYMODESET OR displaymode h') w)) \<and>
   lcd_right_to_left (Some h) w =
     (let h' = h\<lparr>displaymode := unset_bit 1 (displaymode h)\<rparr>
      in map_option (Pair (Some h')) (lcd_send_command h' (LCD_ENTRYMODESET OR displaymode h') w)) \<and>
   lcd_autoscroll_on (Some h) w =
     (let h' = h\<lparr>displaymode := set_bit 0 (displaymode h)\<rparr>
      in map_option (Pair (Some h')) (lcd_send_command h' (LCD_ENTRYMODESET OR displaymode h') w)) \<and>
   lcd_autoscroll_off (Some h) w =
     (let h' = h\<lparr>displaymode := unset_bit 0 (displaymode h)\<rparr>
      in map_option (Pair (Some h')) (lcd_send_command h' (LCD_ENTRYMODESET OR displaymode h') w))"
  by (simp add: lcd_display_off_def lcd_display_on_def lcd_blink_off_def lcd_blink_on_def
      lcd_cursor_off_def lcd_cursor_on_def lcd_left_to_right_def lcd_right_to_left_def
      lcd_autoscroll_off_def lcd_autoscroll_on_def Let_def
      unset_bit_eq_and_not set_bit_eq_or)

theorem flag_toggles_witness:
  "lcd_cursor_on (Some (handle_8bit 255)) idle_world =
     Some (Some ((handle_8bit 255)\<lparr>displaycontrol := 0x06\<rparr>),
       emit [GpioPut 10 False,
             GpioPut 8 True, SleepUs 1,
             GpioPut 0 False, GpioPut 1 True, GpioPut 2 True, GpioPut 3 True,
             GpioPut 4 False, GpioPut 5 False, GpioPut 6 False, GpioPut 7 False,
             SleepUs 1, GpioPut 8 False, SleepUs 100] idle_world) \<and>
   lcd_display_off (Some ((handle_8bit 255)\<lparr>displaycontrol := 0x06\<rparr>)) idle_world =
     Some (Some ((handle_8bit 255)\<lparr>displaycontrol := 0x02\<rparr>),
       emit [GpioPut 10 False,
             GpioPut 8 True, SleepUs 1,
             GpioPut 0 False, GpioPut 1 True, GpioPut 2 False, GpioPut 3 True,
             GpioPut 4 False, GpioPut 5 False, GpioPut 6 False, GpioPut 7 False,
             SleepUs 1, GpioPut 8 False, SleepUs 100] idle_world)"
  using flag_toggles [of "handle_8bit 255" idle_world]
    flag_toggles [of "(handle_8bit 255)\<lparr>displaycontrol := 0x06\<rparr>" idle_world]
  by (simp add: handle_8bit_def send_command_events transfers_def bus_write_def bits_of_8
      upt_0_8 set_bit_eq_or unset_bit_eq_and_not)

section \<open>Row clamping\<close>

text \<open>
  C4, as the claim states it, fails on a handle whose stored line count is 0, which
  \<open>lcd_init_4bit(16, 0, ...)\<close> produces: the row is replaced by \<open>0 - 1 = 255\<close>, the index
  255 is outside the 4-entry row-offset table, and the read \<open>_row_offsets[255]\<close> is out of
  bounds.
\<close>

theorem set_cursor_zero_lines:
  "map_option fst (lcd_init_4bit 16 0 LCD_5x8DOTS 6 255 4 0 1 2 3 idle_world) =
     Some (Some ((handle_4bit 255)\<lparr>displayfunction := 0x00, numlines := 0\<rparr>)) \<and>
   length (row_offsets ((handle_4bit 255)\<lparr>displayfunction := 0x00, numlines := 0\<rparr>)) = 4 \<and>
   unat (cursor_row ((handle_4bit 255)\<lparr>displayfunction := 0x00, numlines := 0\<rparr>) 0) = 255 \<and>
   lcd_set_cursor (Some ((handle_4bit 255)\<lparr>displayfunction := 0x00, numlines := 0\<rparr>)) 0 0 idle_world
     = Some (Inl OutOfBounds)"
proof -
  let ?h = "(handle_4bit 255)\<lparr>displayfunction := 0x00, numlines := 0\<rparr>"
  have h: "initial_handle 16 0 LCD_5x8DOTS 6 255 4 0 1 2 3 0 0 0 0 False = ?h"
    by (simp add: initial_handle_def handle_4bit_def setup_function_def)
  have made: "map_option fst (lcd_init_4bit 16 0 LCD_5x8DOTS 6 255 4 0 1 2 3 idle_world) = Some (Some ?h)"
    unfolding lcd_init_4bit_unwired_example h Let_def by simp
  have len: "length (row_offsets ?h) = 4"
    by (simp add: handle_4bit_def)
  have zero: "numlines ?h = 0"
    by simp
  have idx: "unat (cursor_row ?h 0) = 255"
    by (simp add: cursor_row_zero [OF zero])
  have "\<not> unat (cursor_row ?h 0) < length (row_offsets ?h)"
    unfolding idx len by simp
  then have "lcd_set_cursor (Some ?h) 0 0 idle_world = Some (Inl OutOfBounds)"
    by (rule set_cursor_outside)
  with made len idx show ?thesis
    by blast
qed

text \<open>
  C4, amended. On a handle whose stored line count is at least 1, \<open>lcd_set_cursor\<close>
  clamps the row: a row of 4 or more is first replaced by 3, and the result, when it is at
  least \<open>numlines\<close>, is replaced by \<open>numlines - 1\<close>; so the index is the minimum of the
  row, 3 and \<open>numlines - 1\<close>. It is \<open>numlines - 1\<close> for every row of at least \<open>numlines\<close>
  when \<open>numlines\<close> is at most 4, it is 3 for every row beyond the table when \<open>numlines\<close> is
  at least 4, and it is the row itself when that is in range. The clamped index selects
  the row-offset table entry, and the call reports no error: it is the one command
  \<open>0x80 OR (col + offset)\<close>.
\<close>

theorem cursor_row_clamped:
  "1 \<le> numlines h \<and> handle_wf h \<longrightarrow>
     unat (cursor_row h row) = min (unat row) (min 3 (unat (numlines h) - 1)) \<and>
     (numlines h \<le> row \<and> numlines h \<le> 4 \<longrightarrow> cursor_row h row = numlines h - 1) \<and>
     (4 \<le> row \<and> 4 \<le> numlines h \<longrightarrow> cursor_row h row = 3) \<and>
     (row < numlines h \<and> row < 4 \<longrightarrow> cursor_row h row = row) \<and>
     lcd_set_cursor (Some h) col row w =
       lift (map_option (Pair (Some h))
         (lcd_send_command h
            (LCD_SETDDRAMADDR OR (col + row_offsets h ! unat (cursor_row h row))) w))"
proof (intro impI)
  assume a: "1 \<le> numlines h \<and> handle_wf h"
  then have nz: "numlines h \<noteq> 0" and len: "length (row_offsets h) = 4"
    by (simp_all add: one_le_word handle_wf_def)
  have m: "unat (cursor_row h row) = min (unat row) (min 3 (unat (numlines h) - 1))"
    using nz by (rule cursor_row_min)
  have n1: "unat (numlines h - 1) = unat (numlines h) - 1"
    using nz by (simp add: unat_minus_one)
  have pos: "0 < unat (numlines h)"
    using nz by (simp add: unat_gt_0)
  have c1: "cursor_row h row = numlines h - 1" if "numlines h \<le> row \<and> numlines h \<le> 4"
    using that pos by (intro word_unat_eq_iff [THEN iffD2]) (auto simp add: m n1 word_le_nat_alt min_def)
  have c2: "cursor_row h row = 3" if "4 \<le> row \<and> 4 \<le> numlines h"
    using that by (intro word_unat_eq_iff [THEN iffD2]) (auto simp add: m word_le_nat_alt min_def)
  have c3: "cursor_row h row = row" if "row < numlines h \<and> row < 4"
    using that by (intro word_unat_eq_iff [THEN iffD2]) (auto simp add: m word_less_nat_alt min_def)
  have "unat (cursor_row h row) < length (row_offsets h)"
    using nz by (simp add: cursor_row_in_table len)
  then have "lcd_set_cursor (Some h) col row w =
       lift (map_option (Pair (Some h))
         (lcd_send_command h
            (LCD_SETDDRAMADDR OR (col + row_offsets h ! unat (cursor_row h row))) w))"
    by (rule set_cursor_in_table)
  with m c1 c2 c3 show "unat (cursor_row h row) = min (unat row) (min 3 (unat (numlines h) - 1)) \<and>
     (numlines h \<le> row \<and> numlines h \<le> 4 \<longrightarrow> cursor_row h row = numlines h - 1) \<and>
     (4 \<le> row \<and> 4 \<le> numlines h \<longrightarrow> cursor_row h row = 3) \<and>
     (row < numlines h \<and> row < 4 \<longrightarrow> cursor_row h row = row) \<and>
     lcd_set_cursor (Some h) col row w =
       lift (map_option (Pair (Some h))
         (lcd_send_command h
            (LCD_SETDDRAMADDR OR (col + row_offsets h ! unat (cursor_row h row))) w))"
    by blast
qed

theorem cursor_row_clamped_witness:
  "1 \<le> numlines (handle_8bit 255) \<and> handle_wf (handle_8bit 255) \<and>
   numlines (handle_8bit 255) \<le> 7 \<and> numlines (handle_8bit 255) \<le> 4 \<and>
   cursor_row (handle_8bit 255) 7 = 1 \<and>
   (0 :: u8) < numlines (handle_8bit 255) \<and>
   cursor_row (handle_8bit 255) 0 = 0 \<and>
   (4 :: u8) \<le> 9 \<and> (4 :: u8) \<le> numlines ((handle_8bit 255)\<lparr>numlines := 4\<rparr>) \<and>
   cursor_row ((handle_8bit 255)\<lparr>numlines := 4\<rparr>) 9 = 3 \<and>
   lcd_set_cursor (Some (handle_8bit 255)) 5 7 idle_world =
     Some (Inr (Some (handle_8bit 255),
       emit [GpioPut 10 False,
             GpioPut 8 True, SleepUs 1,
             GpioPut 0 True, GpioPut 1 False, GpioPut 2 True, GpioPut 3 False,
             GpioPut 4 False, GpioPut 5 False, GpioPut 6 True, GpioPut 7 True,
             SleepUs 1, GpioPut 8 False, SleepUs 100] idle_world))"
proof -
  have ok: "1 \<le> numlines (handle_8bit 255)" "handle_wf (handle_8bit 255)"
    "1 \<le> numlines ((handle_8bit 255)\<lparr>numlines := 4\<rparr>)"
    "handle_wf ((handle_8bit 255)\<lparr>numlines := 4\<rparr>)"
    by (simp_all add: handle_8bit_def handle_wf_def)
  have n: "numlines (handle_8bit 255) = 2" "numlines ((handle_8bit 255)\<lparr>numlines := 4\<rparr>) = 4"
    by (simp_all add: handle_8bit_def)
  note a = cursor_row_clamped [where h = "handle_8bit 255" and row = 7 and col = 5 and w = idle_world]
  note b = cursor_row_clamped [where h = "handle_8bit 255" and row = 0 and col = 5 and w = idle_world]
  note c = cursor_row_clamped [where h = "(handle_8bit 255)\<lparr>numlines := 4\<rparr>" and row = 9
      and col = 5 and w = idle_world]
  have r7: "cursor_row (handle_8bit 255) 7 = 1"
    using a ok by (simp add: n)
  have r0: "cursor_row (handle_8bit 255) 0 = 0"
    using b ok by (simp add: n)
  have r9: "cursor_row ((handle_8bit 255)\<lparr>numlines := 4\<rparr>) 9 = 3"
    using c ok by (simp add: n)
  have "lcd_set_cursor (Some (handle_8bit 255)) 5 7 idle_world =
       lift (map_option (Pair (Some (handle_8bit 255)))
         (lcd_send_command (handle_8bit 255)
            (LCD_SETDDRAMADDR OR (5 + row_offsets (handle_8bit 255) ! unat (cursor_row (handle_8bit 255) 7)))
            idle_world))"
    using a ok by blast
  then have sent: "lcd_set_cursor (Some (handle_8bit 255)) 5 7 idle_world =
     Some (Inr (Some (handle_8bit 255),
       emit [GpioPut 10 False,
             GpioPut 8 True, SleepUs 1,
             GpioPut 0 True, GpioPut 1 False, GpioPut 2 True, GpioPut 3 False,
             GpioPut 4 False, GpioPut 5 False, GpioPut 6 True, GpioPut 7 True,
             SleepUs 1, GpioPut 8 False, SleepUs 100] idle_world))"
    unfolding r7
    by (simp add: handle_8bit_def lift_def send_command_events transfers_def bus_write_def
        bits_of_8 upt_0_8)
  from ok r7 r0 r9 sent show ?thesis
    by (simp add: n)
qed

section \<open>Row-offset table and cursor command\<close>

text \<open>
  C5, as the claim states it, fails for an initialization with \<open>rows = 0\<close>: the table is
  as claimed, but \<open>lcd_set_cursor\<close> on the handle that \<open>lcd_init_8bit(16, 0, ...)\<close> returns
  computes the index 255 and reads outside the table instead of issuing a command.
\<close>

theorem set_cursor_after_zero_row_init:
  "lcd_init_8bit 16 0 LCD_5x8DOTS 10 255 8 0 1 2 3 4 5 6 7 idle_world \<noteq> None \<and>
   fst (the (lcd_init_8bit 16 0 LCD_5x8DOTS 10 255 8 0 1 2 3 4 5 6 7 idle_world)) =
     Some ((handle_8bit 255)\<lparr>displayfunction := 0x10, numlines := 0\<rparr>) \<and>
   row_offsets ((handle_8bit 255)\<lparr>displayfunction := 0x10, numlines := 0\<rparr>) =
     [0x00, 0x40, 0x10, 0x50] \<and>
   unat (cursor_row ((handle_8bit 255)\<lparr>displayfunction := 0x10, numlines := 0\<rparr>) 1) = 255 \<and>
   lcd_set_cursor (Some ((handle_8bit 255)\<lparr>displayfunction := 0x10, numlines := 0\<rparr>)) 0 1
       (snd (the (lcd_init_8bit 16 0 LCD_5x8DOTS 10 255 8 0 1 2 3 4 5 6 7 idle_world)))
     = Some (Inl OutOfBounds)"
proof -
  let ?h = "(handle_8bit 255)\<lparr>displayfunction := 0x10, numlines := 0\<rparr>"
  have h: "initial_handle 16 0 LCD_5x8DOTS 10 255 8 0 1 2 3 4 5 6 7 True = ?h"
    by (simp add: initial_handle_def handle_8bit_def setup_function_def)
  have made: "lcd_init_8bit 16 0 LCD_5x8DOTS 10 255 8 0 1 2 3 4 5 6 7 idle_world \<noteq> None"
    "fst (the (lcd_init_8bit 16 0 LCD_5x8DOTS 10 255 8 0 1 2 3 4 5 6 7 idle_world)) = Some ?h"
    unfolding lcd_init_8bit_unwired_example h Let_def by simp_all
  have tab: "row_offsets ?h = [0x00, 0x40, 0x10, 0x50]"
    by (simp add: handle_8bit_def)
  have zero: "numlines ?h = 0"
    by simp
  have idx: "unat (cursor_row ?h 1) = 255"
    by (simp add: cursor_row_zero [OF zero])
  have "\<not> unat (cursor_row ?h 1) < length (row_offsets ?h)"
    unfolding idx tab by simp
  then have "lcd_set_cursor (Some ?h) 0 1
       (snd (the (lcd_init_8bit 16 0 LCD_5x8DOTS 10 255 8 0 1 2 3 4 5 6 7 idle_world)))
     = Some (Inl OutOfBounds)"
    by (rule set_cursor_outside)
  with made tab idx show ?thesis
    by blast
qed

text \<open>
  C5, amended. Every initialization with column count \<open>cols\<close> leaves the row-offset table
  \<open>[0x00, 0x40, 0x00 + cols, 0x40 + cols]\<close> (bytes) in the handle it returns, and it
  returns one whenever the Read/Write line is not wired and memory is available. On a
  handle with that table and a stored line count of at least 1, \<open>lcd_set_cursor(col, row)\<close>
  issues the one command byte \<open>0x80 OR (col + offset[clamped row])\<close>. In particular,
  after an initialization with \<open>cols = 16\<close> and \<open>rows = 2\<close> the table is
  \<open>[0x00, 0x40, 0x10, 0x50]\<close> and \<open>lcd_set_cursor(0, 1)\<close> issues the command \<open>0xC0\<close>.
\<close>

theorem row_offsets_and_cursor_command:
  "row_offsets (initial_handle cols rows charsize rs rw enable d0 d1 d2 d3 d4 d5 d6 d7 eightbitmode)
     = [0x00, 0x40, 0x00 + cols, 0x40 + cols] \<and>
   (lcd_init cols rows charsize rs rw enable d0 d1 d2 d3 d4 d5 d6 d7 eightbitmode w
      = Some (Some h', w') \<longrightarrow>
    h' = initial_handle cols rows charsize rs rw enable d0 d1 d2 d3 d4 d5 d6 d7 eightbitmode) \<and>
   (rw = 255 \<and> malloc_result w \<noteq> None \<longrightarrow>
    map_option fst
      (lcd_init cols rows charsize rs rw enable d0 d1 d2 d3 d4 d5 d6 d7 eightbitmode w) =
      Some (Some (initial_handle cols rows charsize rs rw enable d0 d1 d2 d3 d4 d5 d6 d7
                    eightbitmode))) \<and>
   (1 \<le> numlines h \<and> row_offsets h = [0x00, 0x40, 0x00 + cols, 0x40 + cols] \<longrightarrow>
    lcd_set_cursor (Some h) col row w =
      lift (map_option (Pair (Some h))
        (lcd_send_command h
           (LCD_SETDDRAMADDR OR
            (col + [0x00, 0x40, 0x00 + cols, 0x40 + cols] ! unat (cursor_row h row))) w))) \<and>
   (let h = initial_handle 16 2 charsize rs rw enable d0 d1 d2 d3 d4 d5 d6 d7 eightbitmode
    in row_offsets h = [0x00, 0x40, 0x10, 0x50] \<and>
       lcd_set_cursor (Some h) 0 1 w =
         lift (map_option (Pair (Some h)) (lcd_send_command h 0xC0 w)))"
proof (intro conjI impI)
  show "row_offsets (initial_handle cols rows charsize rs rw enable d0 d1 d2 d3 d4 d5 d6 d7 eightbitmode)
     = [0x00, 0x40, 0x00 + cols, 0x40 + cols]"
    by (rule initial_handle_fields)
next
  assume "lcd_init cols rows charsize rs rw enable d0 d1 d2 d3 d4 d5 d6 d7 eightbitmode w
      = Some (Some h', w')"
  then show "h' = initial_handle cols rows charsize rs rw enable d0 d1 d2 d3 d4 d5 d6 d7 eightbitmode"
    by (rule lcd_init_result)
next
  assume "rw = 255 \<and> malloc_result w \<noteq> None"
  then obtain block where "rw = 255" "malloc_result w = Some block"
    by auto
  then show "map_option fst
      (lcd_init cols rows charsize rs rw enable d0 d1 d2 d3 d4 d5 d6 d7 eightbitmode w) =
      Some (Some (initial_handle cols rows charsize rs rw enable d0 d1 d2 d3 d4 d5 d6 d7
                    eightbitmode))"
    by (simp add: lcd_init_unwired Let_def)
next
  assume a: "1 \<le> numlines h \<and> row_offsets h = [0x00, 0x40, 0x00 + cols, 0x40 + cols]"
  then have "numlines h \<noteq> 0"
    by (simp add: one_le_word)
  then have "unat (cursor_row h row) < 4"
    by (rule cursor_row_in_table)
  with a have "unat (cursor_row h row) < length (row_offsets h)"
    by simp
  then have "lcd_set_cursor (Some h) col row w =
      lift (map_option (Pair (Some h))
        (lcd_send_command h
           (LCD_SETDDRAMADDR OR (col + row_offsets h ! unat (cursor_row h row))) w))"
    by (rule set_cursor_in_table)
  with a show "lcd_set_cursor (Some h) col row w =
      lift (map_option (Pair (Some h))
        (lcd_send_command h
           (LCD_SETDDRAMADDR OR
            (col + [0x00, 0x40, 0x00 + cols, 0x40 + cols] ! unat (cursor_row h row))) w))"
    by simp
next
  let ?h = "initial_handle 16 2 charsize rs rw enable d0 d1 d2 d3 d4 d5 d6 d7 eightbitmode"
  have tab: "row_offsets ?h = [0x00, 0x40, 0x10, 0x50]"
    by (simp add: initial_handle_fields)
  have nz: "numlines ?h \<noteq> 0"
    by (simp add: initial_handle_fields)
  have "unat (cursor_row ?h 1) = min (unat (1 :: u8)) (min 3 (unat (numlines ?h) - 1))"
    using nz by (rule cursor_row_min)
  then have idx: "unat (cursor_row ?h 1) = 1"
    by (simp add: initial_handle_fields)
  then have "unat (cursor_row ?h 1) < length (row_offsets ?h)"
    by (simp add: tab)
  then have "lcd_set_cursor (Some ?h) 0 1 w =
      lift (map_option (Pair (Some ?h))
        (lcd_send_command ?h
           (LCD_SETDDRAMADDR OR (0 + row_offsets ?h ! unat (cursor_row ?h 1))) w))"
    by (rule set_cursor_in_table)
  then have "lcd_set_cursor (Some ?h) 0 1 w =
         lift (map_option (Pair (Some ?h)) (lcd_send_command ?h 0xC0 w))"
    unfolding idx tab by simp
  with tab show "let h = ?h in row_offsets h = [0x00, 0x40, 0x10, 0x50] \<and>
       lcd_set_cursor (Some h) 0 1 w =
         lift (map_option (Pair (Some h)) (lcd_send_command h 0xC0 w))"
    by (simp add: Let_def)
qed

theorem row_offsets_and_cursor_command_witness:
  "malloc_result idle_world \<noteq> None \<and>
   lcd_init_4bit 16 2 LCD_5x8DOTS 6 255 4 0 1 2 3 idle_world =
     Some (Some (handle_4bit 255),
       emit (SleepMs 50 # pin_setup (handle_4bit 255) @ handshake (handle_4bit 255)
             @ concat (map (op_events (handle_4bit 255))
                 [Command 0x28, Command 0x0C, Command 0x06,
                  Command 0x01, DelayMs 5, Command 0x02, DelayMs 5])) idle_world) \<and>
   row_offsets (handle_4bit 255) = [0x00, 0x40, 0x10, 0x50] \<and>
   1 \<le> numlines (handle_4bit 255) \<and>
   lcd_set_cursor (Some (handle_4bit 255)) 0 1 idle_world =
     Some (Inr (Some (handle_4bit 255),
       emit [GpioPut 6 False,
             GpioPut 4 True, SleepUs 1,
             GpioPut 0 False, GpioPut 1 False, GpioPut 2 True, GpioPut 3 True,
             SleepUs 1, GpioPut 4 False, SleepUs 100,
             GpioPut 4 True, SleepUs 1,
             GpioPut 0 False, GpioPut 1 False, GpioPut 2 False, GpioPut 3 False,
             SleepUs 1, GpioPut 4 False, SleepUs 100] idle_world)) \<and>
   lcd_set_cursor (Some (handle_4bit 255)) 3 9 idle_world =
     Some (Inr (Some (handle_4bit 255),
       emit [GpioPut 6 False,
             GpioPut 4 True, SleepUs 1,
             GpioPut 0 False, GpioPut 1 False, GpioPut 2 True, GpioPut 3 True,
             SleepUs 1, GpioPut 4 False, SleepUs 100,
             GpioPut 4 True, SleepUs 1,
             GpioPut 0 True, GpioPut 1 True, GpioPut 2 False, GpioPut 3 False,
             SleepUs 1, GpioPut 4 False, SleepUs 100] idle_world))"
proof -
  have ran: "lcd_init 16 2 LCD_5x8DOTS 6 255 4 0 1 2 3 0 0 0 0 False idle_world =
     Some (Some (handle_4bit 255),
       emit (SleepMs 50 # pin_setup (handle_4bit 255) @ handshake (handle_4bit 255)
             @ concat (map (op_events (handle_4bit 255))
                 [Command 0x28, Command 0x0C, Command 0x06,
                  Command 0x01, DelayMs 5, Command 0x02, DelayMs 5])) idle_world)"
    using lcd_init_4bit_unwired_example [of 2]
    unfolding initial_handle_4bit_example Let_def lcd_init_4bit_def
    by (simp add: example_fields)
  have tab: "row_offsets (handle_4bit 255) = [0x00, 0x40, 0x00 + 16, 0x40 + 16]"
    and n: "1 \<le> numlines (handle_4bit 255)"
    by (simp_all add: handle_4bit_def)
  note a = row_offsets_and_cursor_command [where cols = 16 and rows = 2 and charsize = LCD_5x8DOTS
      and rs = 6 and rw = 255 and enable = 4 and ?d0.0 = 0 and ?d1.0 = 1 and ?d2.0 = 2 and ?d3.0 = 3
      and ?d4.0 = 0 and ?d5.0 = 0 and ?d6.0 = 0 and ?d7.0 = 0 and eightbitmode = False
      and w = idle_world and h' = "handle_4bit 255" and h = "handle_4bit 255" and col = 3 and row = 9]
  have c01: "lcd_set_cursor (Some (handle_4bit 255)) 0 1 idle_world =
         lift (map_option (Pair (Some (handle_4bit 255)))
           (lcd_send_command (handle_4bit 255) 0xC0 idle_world))"
    using a unfolding initial_handle_4bit_example Let_def by blast
  have c39: "lcd_set_cursor (Some (handle_4bit 255)) 3 9 idle_world =
      lift (map_option (Pair (Some (handle_4bit 255)))
        (lcd_send_command (handle_4bit 255)
           (LCD_SETDDRAMADDR OR
            (3 + [0x00, 0x40, 0x00 + 16, 0x40 + 16] ! unat (cursor_row (handle_4bit 255) 9)))
           idle_world))"
    using a tab n by blast
  have r9: "unat (cursor_row (handle_4bit 255) 9) = 1"
    by (simp add: cursor_row_min handle_4bit_def)
  have four: "bus_write (handle_4bit 255) [a, b, c, d] =
      [GpioPut 4 True, SleepUs 1, GpioPut 0 a, GpioPut 1 b, GpioPut 2 c, GpioPut 3 d,
       SleepUs 1, GpioPut 4 False, SleepUs 100]" for a b c d
    by (simp add: bus_write_def handle_4bit_def upt_0_4)
  have e01: "lcd_set_cursor (Some (handle_4bit 255)) 0 1 idle_world =
     Some (Inr (Some (handle_4bit 255),
       emit [GpioPut 6 False,
             GpioPut 4 True, SleepUs 1,
             GpioPut 0 False, GpioPut 1 False, GpioPut 2 True, GpioPut 3 True,
             SleepUs 1, GpioPut 4 False, SleepUs 100,
             GpioPut 4 True, SleepUs 1,
             GpioPut 0 False, GpioPut 1 False, GpioPut 2 False, GpioPut 3 False,
             SleepUs 1, GpioPut 4 False, SleepUs 100] idle_world))"
    unfolding c01
    by (simp add: lift_def send_command_events transfers_def example_fields
        bits_of_low_nibble bits_of_high_nibble_list four) (simp add: handle_4bit_def)
  have e39: "lcd_set_cursor (Some (handle_4bit 255)) 3 9 idle_world =
     Some (Inr (Some (handle_4bit 255),
       emit [GpioPut 6 False,
             GpioPut 4 True, SleepUs 1,
             GpioPut 0 False, GpioPut 1 False, GpioPut 2 True, GpioPut 3 True,
             SleepUs 1, GpioPut 4 False, SleepUs 100,
             GpioPut 4 True, SleepUs 1,
             GpioPut 0 True, GpioPut 1 True, GpioPut 2 False, GpioPut 3 False,
             SleepUs 1, GpioPut 4 False, SleepUs 100] idle_world))"
    unfolding c39 r9
    by (simp add: lift_def send_command_events transfers_def example_fields
        bits_of_low_nibble bits_of_high_nibble_list four) (simp add: handle_4bit_def)
  have mem: "malloc_result idle_world \<noteq> None"
    by (simp add: example_fields)
  from mem ran tab n e01 e39 show ?thesis
    by (simp add: lcd_init_4bit_def)
qed

section \<open>Bounds of the row-offset access\<close>

text \<open>
  C10. On a handle whose stored line count is at least 1 the index \<open>lcd_set_cursor\<close>
  uses for \<open>_row_offsets\<close> is below 4 for every row, so the access is in bounds and no
  fault occurs. The hypothesis is necessary: with a stored line count of 0 the index is
  \<open>0 - 1 = 255\<close> in 8-bit arithmetic for every row and the access is out of bounds; and an
  initialization stores its \<open>rows\<close> argument as the line count whatever it is.
\<close>

theorem cursor_index_in_bounds:
  "(1 \<le> numlines h \<longrightarrow> unat (cursor_row h row) < 4) \<and>
   (1 \<le> numlines h \<and> handle_wf h \<longrightarrow>
      unat (cursor_row h row) < length (row_offsets h) \<and>
      lcd_set_cursor (Some h) col row w \<noteq> Some (Inl OutOfBounds)) \<and>
   (numlines h = 0 \<longrightarrow> unat (cursor_row h row) = 255) \<and>
   (numlines h = 0 \<and> handle_wf h \<longrightarrow>
      lcd_set_cursor (Some h) col row w = Some (Inl OutOfBounds)) \<and>
   numlines (initial_handle cols rows charsize rs rw enable d0 d1 d2 d3 d4 d5 d6 d7 eightbitmode)
     = rows \<and>
   (lcd_init cols rows charsize rs rw enable d0 d1 d2 d3 d4 d5 d6 d7 eightbitmode w
      = Some (Some h', w') \<longrightarrow> numlines h' = rows \<and> handle_wf h')"
proof (intro conjI impI)
  assume "1 \<le> numlines h"
  then show "unat (cursor_row h row) < 4"
    by (simp add: one_le_word cursor_row_in_table)
next
  assume a: "1 \<le> numlines h \<and> handle_wf h"
  then show in_table: "unat (cursor_row h row) < length (row_offsets h)"
    by (simp add: one_le_word cursor_row_in_table handle_wf_def)
  show "lcd_set_cursor (Some h) col row w \<noteq> Some (Inl OutOfBounds)"
    unfolding set_cursor_in_table [OF in_table] by (rule lift_no_fault)
next
  assume "numlines h = 0"
  then show "unat (cursor_row h row) = 255"
    by (simp add: cursor_row_zero)
next
  assume "numlines h = 0 \<and> handle_wf h"
  then have "\<not> unat (cursor_row h row) < length (row_offsets h)"
    by (simp add: cursor_row_zero handle_wf_def)
  then show "lcd_set_cursor (Some h) col row w = Some (Inl OutOfBounds)"
    by (rule set_cursor_outside)
next
  show "numlines (initial_handle cols rows charsize rs rw enable d0 d1 d2 d3 d4 d5 d6 d7 eightbitmode)
     = rows"
    by (rule initial_handle_fields)
next
  assume "lcd_init cols rows charsize rs rw enable d0 d1 d2 d3 d4 d5 d6 d7 eightbitmode w
      = Some (Some h', w')"
  then have "h' = initial_handle cols rows charsize rs rw enable d0 d1 d2 d3 d4 d5 d6 d7 eightbitmode"
    by (rule lcd_init_result)
  then show "numlines h' = rows" "handle_wf h'"
    by (simp_all add: initial_handle_fields)
qed

theorem cursor_index_in_bounds_witness:
  "1 \<le> numlines (handle_4bit 255) \<and> handle_wf (handle_4bit 255) \<and>
   unat (cursor_row (handle_4bit 255) 7) < 4 \<and>
   lcd_set_cursor (Some (handle_4bit 255)) 0 7 idle_world \<noteq> Some (Inl OutOfBounds) \<and>
   numlines ((handle_4bit 255)\<lparr>numlines := 0\<rparr>) = 0 \<and>
   handle_wf ((handle_4bit 255)\<lparr>numlines := 0\<rparr>) \<and>
   unat (cursor_row ((handle_4bit 255)\<lparr>numlines := 0\<rparr>) 7) = 255 \<and>
   lcd_set_cursor (Some ((handle_4bit 255)\<lparr>numlines := 0\<rparr>)) 0 7 idle_world
     = Some (Inl OutOfBounds) \<and>
   lcd_init_4bit 16 2 LCD_5x8DOTS 6 255 4 0 1 2 3 idle_world =
     Some (Some (handle_4bit 255),
       emit (SleepMs 50 # pin_setup (handle_4bit 255) @ handshake (handle_4bit 255)
             @ concat (map (op_events (handle_4bit 255))
                 [Command 0x28, Command 0x0C, Command 0x06,
                  Command 0x01, DelayMs 5, Command 0x02, DelayMs 5])) idle_world) \<and>
   numlines (handle_4bit 255) = 2"
proof -
  have ok: "1 \<le> numlines (handle_4bit 255)" "handle_wf (handle_4bit 255)"
    by (simp_all add: handle_4bit_def handle_wf_def)
  have zero: "numlines ((handle_4bit 255)\<lparr>numlines := 0\<rparr>) = 0"
    "handle_wf ((handle_4bit 255)\<lparr>numlines := 0\<rparr>)"
    by (simp_all add: handle_4bit_def handle_wf_def)
  have ran: "lcd_init 16 2 LCD_5x8DOTS 6 255 4 0 1 2 3 0 0 0 0 False idle_world =
     Some (Some (handle_4bit 255),
       emit (SleepMs 50 # pin_setup (handle_4bit 255) @ handshake (handle_4bit 255)
             @ concat (map (op_events (handle_4bit 255))
                 [Command 0x28, Command 0x0C, Command 0x06,
                  Command 0x01, DelayMs 5, Command 0x02, DelayMs 5])) idle_world)"
    using lcd_init_4bit_unwired_example [of 2]
    unfolding initial_handle_4bit_example Let_def lcd_init_4bit_def
    by (simp add: example_fields)
  note a = cursor_index_in_bounds [where h = "handle_4bit 255" and row = 7 and col = 0
      and w = idle_world and cols = 16 and rows = 2 and charsize = LCD_5x8DOTS and rs = 6
      and rw = 255 and enable = 4 and ?d0.0 = 0 and ?d1.0 = 1 and ?d2.0 = 2 and ?d3.0 = 3
      and ?d4.0 = 0 and ?d5.0 = 0 and ?d6.0 = 0 and ?d7.0 = 0 and eightbitmode = False
      and h' = "handle_4bit 255"]
  note b = cursor_index_in_bounds [where h = "(handle_4bit 255)\<lparr>numlines := 0\<rparr>" and row = 7
      and col = 0 and w = idle_world]
  from a ok ran b zero show ?thesis
    by (simp add: lcd_init_4bit_def)
qed

section \<open>Custom characters\<close>


section \<open>NULL handles\<close>

text \<open>
  C9. Every public function that takes a handle returns at once when the handle is
  \<open>NULL\<close>: the world is unchanged (no event, hence no GPIO access and no bus transfer),
  there is no handle to change, and the handle after the call is \<open>NULL\<close>, which is also
  what \<open>lcd_deinit\<close> returns.
\<close>

theorem null_handle_noop:
  "lcd_clear None w = Some (None, w) \<and>
   lcd_home None w = Some (None, w) \<and>
   lcd_display_off None w = Some (None, w) \<and>
   lcd_display_on None w = Some (None, w) \<and>
   lcd_blink_off None w = Some (None, w) \<and>
   lcd_blink_on None w = Some (None, w) \<and>
   lcd_cursor_off None w = Some (None, w) \<and>
   lcd_cursor_on None w = Some (None, w) \<and>
   lcd_scroll_display_left None w = Some (None, w) \<and>
   lcd_scroll_display_right None w = Some (None, w) \<and>
   lcd_left_to_right None w = Some (None, w) \<and>
   lcd_right_to_left None w = Some (None, w) \<and>
   lcd_autoscroll_off None w = Some (None, w) \<and>
   lcd_autoscroll_on None w = Some (None, w) \<and>
   lcd_set_cursor None col row w = Some (Inr (None, w)) \<and>
   lcd_write_char None symbol w = Some (None, w) \<and>
   lcd_write_string None text w = Some (None, w) \<and>
   lcd_write_char_at None symbol col row w = Some (Inr (None, w)) \<and>
   lcd_write_string_at None text col row w = Some (Inr (None, w)) \<and>
   lcd_create_char None num data w = Some (Inr (None, w)) \<and>
   lcd_deinit None w = Some (None, w)"
  by (simp add: lcd_clear_def lcd_home_def lcd_display_off_def lcd_display_on_def
      lcd_blink_off_def lcd_blink_on_def lcd_cursor_off_def lcd_cursor_on_def
      lcd_scroll_display_left_def lcd_scroll_display_right_def lcd_left_to_right_def
      lcd_right_to_left_def lcd_autoscroll_off_def lcd_autoscroll_on_def lcd_set_cursor_def
      lcd_write_char_def lcd_write_string_def lcd_write_char_at_def lcd_write_string_at_def
      lcd_create_char_def lcd_deinit_def)

theorem null_handle_noop_witness:
  "lcd_clear None busy_world = Some (None, busy_world) \<and>
   lcd_write_string None [0x48, 0x69] busy_world = Some (None, busy_world) \<and>
   lcd_set_cursor None 0 1 busy_world = Some (Inr (None, busy_world)) \<and>
   lcd_create_char None 0 [0, 0x11, 0, 0, 0x11, 0x0E, 0, 0] busy_world = Some (Inr (None, busy_world)) \<and>
   lcd_deinit None busy_world = Some (None, busy_world)"
  using null_handle_noop [of busy_world 0 1 0 "[0x48, 0x69]" 0 "[0, 0x11, 0, 0, 0x11, 0x0E, 0, 0]"]
  by simp

end
